theory Spec2Isabelle
  imports Complex_Main "HOL-Library.Word"
begin

section \<open>Data model of SceneManager.cpp\<close>

text \<open>
  The scene manager of \<^verbatim>\<open>Source/SceneManager.cpp\<close> keeps a fixed array of texture
  entries with a counter, a vector of material records and a pointer to the shader
  manager. The header that declares the members is not among the sources; the member
  types are read off their uses: \<^verbatim>\<open>glGenTextures(1, &m_textureIDs[i].ID)\<close> makes the
  \<open>ID\<close> field a \<^verbatim>\<open>GLuint\<close>, an unsigned 32-bit integer.

  The C++ \<^verbatim>\<open>float\<close> values (colours, angles, matrix entries) are modelled as real
  numbers: rounding is left out of the model.
\<close>

type_synonym GLuint = "32 word"

datatype error = OutOfBounds | NullPointer

datatype vec2 = Vec2 real real
datatype vec3 = Vec3 real real real
datatype vec4 = Vec4 real real real real

text \<open>A \<^verbatim>\<open>glm::mat4\<close> is four columns, as GLM stores it.\<close>

datatype mat4 = Mat4 vec4 vec4 vec4 vec4

record TEXTURE_INFO =
  tag :: string
  ID :: GLuint

record OBJECT_MATERIAL =
  ambientColor :: vec3
  ambientStrength :: real
  diffuseColor :: vec3
  specularColor :: vec3
  shininess :: real
  mtag :: string

subsection \<open>The shader parameter sink\<close>

text \<open>
  Modelled from the spec: the shader manager class (the shader parameter sink) is not
  among the sources. The spec describes it as accepting named uniform values through
  typed setters; the model is the sequence of (name, value) pairs pushed so far, and
  the value a uniform holds is the one pushed last under its name.
\<close>

datatype uniform_value =
    UBool bool
  | UInt int
  | UFloat real
  | UVec2 vec2
  | UVec3 vec3
  | UVec4 vec4
  | UMat4 mat4
  | USampler2D int

type_synonym ShaderManager = "(string \<times> uniform_value) list"

definition setBoolValue :: "string \<Rightarrow> bool \<Rightarrow> ShaderManager \<Rightarrow> ShaderManager" where
  "setBoolValue name b sh = sh @ [(name, UBool b)]"

definition setIntValue :: "string \<Rightarrow> int \<Rightarrow> ShaderManager \<Rightarrow> ShaderManager" where
  "setIntValue name n sh = sh @ [(name, UInt n)]"

definition setFloatValue :: "string \<Rightarrow> real \<Rightarrow> ShaderManager \<Rightarrow> ShaderManager" where
  "setFloatValue name r sh = sh @ [(name, UFloat r)]"

definition setVec2Value :: "string \<Rightarrow> vec2 \<Rightarrow> ShaderManager \<Rightarrow> ShaderManager" where
  "setVec2Value name v sh = sh @ [(name, UVec2 v)]"

definition setVec3Value :: "string \<Rightarrow> vec3 \<Rightarrow> ShaderManager \<Rightarrow> ShaderManager" where
  "setVec3Value name v sh = sh @ [(name, UVec3 v)]"

definition setVec4Value :: "string \<Rightarrow> vec4 \<Rightarrow> ShaderManager \<Rightarrow> ShaderManager" where
  "setVec4Value name v sh = sh @ [(name, UVec4 v)]"

definition setMat4Value :: "string \<Rightarrow> mat4 \<Rightarrow> ShaderManager \<Rightarrow> ShaderManager" where
  "setMat4Value name m sh = sh @ [(name, UMat4 m)]"

definition setSampler2DValue :: "string \<Rightarrow> int \<Rightarrow> ShaderManager \<Rightarrow> ShaderManager" where
  "setSampler2DValue name n sh = sh @ [(name, USampler2D n)]"

text \<open>The current value of a uniform: the last one pushed under the name.\<close>

definition uniform_of :: "ShaderManager \<Rightarrow> string \<Rightarrow> uniform_value option" where
  "uniform_of sh name = map_of (rev sh) name"

text \<open>C++ converts the \<^verbatim>\<open>bool\<close> argument of \<^verbatim>\<open>setIntValue\<close> to 0 or 1.\<close>

definition int_of_bool :: "bool \<Rightarrow> int" where
  "int_of_bool b = (if b then 1 else 0)"

subsection \<open>The names of the uniforms\<close>

definition g_ModelName :: string where "g_ModelName = ''model''"
definition g_ColorValueName :: string where "g_ColorValueName = ''objectColor''"
definition g_TextureValueName :: string where "g_TextureValueName = ''objectTexture''"
definition g_UseTextureName :: string where "g_UseTextureName = ''bUseTexture''"
definition g_UseLightingName :: string where "g_UseLightingName = ''bUseLighting''"

subsection \<open>The state of the scene manager\<close>

text \<open>
  \<open>m_pShaderManager\<close> is \<open>None\<close> for the null pointer. \<open>m_textureIDs\<close> is the
  fixed array (its length is the array's size), \<open>m_loadedTextures\<close> the \<^verbatim>\<open>int\<close>
  counter: every access \<open>m_textureIDs[i]\<close> is in range only for
  \<open>0 \<le> i < length\<close>, which happens far from the limits of a 32-bit \<^verbatim>\<open>int\<close>, so
  the counter is an unbounded integer and an access out of range is the error
  \<open>OutOfBounds\<close>.
\<close>

record SceneManager =
  m_pShaderManager :: "ShaderManager option"
  m_loadedTextures :: int
  m_textureIDs :: "TEXTURE_INFO list"
  m_objectMaterials :: "OBJECT_MATERIAL list"

text \<open>
  Modelled from the spec: the array size is declared in the missing header. The spec
  (and the comments of the source: "There are up to 16 slots") gives 16 texture slots,
  and a registry that starts with no entry.
\<close>

definition MAX_TEXTURES :: nat where
  "MAX_TEXTURES = 16"

definition new_SceneManager :: "ShaderManager option \<Rightarrow> SceneManager" where
  "new_SceneManager pShaderManager =
     \<lparr> m_pShaderManager = pShaderManager,
       m_loadedTextures = 0,
       m_textureIDs = replicate MAX_TEXTURES \<lparr> tag = [], ID = 0 \<rparr>,
       m_objectMaterials = [] \<rparr>"

subsection \<open>The collaborators: image decoding and the GL driver\<close>

text \<open>
  \<^verbatim>\<open>stbi_load\<close> is a parameter of the model: a function from the file name to the
  decoded image, \<open>None\<close> when the file cannot be decoded (the null pointer). The
  pixels themselves play no part in the registry.
\<close>

record image =
  width :: int
  height :: int
  colorChannels :: int

datatype gl_format = GL_RGB8 | GL_RGB | GL_RGBA8 | GL_RGBA
datatype gl_param = GL_TEXTURE_WRAP_S | GL_TEXTURE_WRAP_T | GL_TEXTURE_MIN_FILTER | GL_TEXTURE_MAG_FILTER
datatype gl_pvalue = GL_REPEAT | GL_LINEAR

text \<open>
  The GL context is the sequence of calls made to it. \<open>DeleteTextures\<close> is the call
  that releases a texture name; \<open>GenTextures n\<close> records that the driver generated
  the name \<open>n\<close>.
\<close>

datatype gl_call =
    GenTextures GLuint
  | DeleteTextures GLuint
  | BindTexture GLuint
  | ActiveTexture int
  | TexParameteri gl_param gl_pvalue
  | TexImage2D gl_format int int gl_format
  | GenerateMipmap

type_synonym GL = "gl_call list"

fun is_GenTextures :: "gl_call \<Rightarrow> bool" where
  "is_GenTextures (GenTextures n) = True"
| "is_GenTextures c = False"

fun is_DeleteTextures :: "gl_call \<Rightarrow> bool" where
  "is_DeleteTextures (DeleteTextures n) = True"
| "is_DeleteTextures c = False"

text \<open>
  \<^verbatim>\<open>glGenTextures(1, &x)\<close>: the driver chooses the name; \<open>drv k\<close> is the name it
  returns at its \<open>k\<close>-th generation (counted from 0).
\<close>

definition glGenTextures :: "(nat \<Rightarrow> GLuint) \<Rightarrow> GL \<Rightarrow> GLuint \<times> GL" where
  "glGenTextures drv gl =
     (let n = drv (length (filter is_GenTextures gl)) in (n, gl @ [GenTextures n]))"

section \<open>The texture registry\<close>

definition CreateGLTexture ::
  "(string \<Rightarrow> image option) \<Rightarrow> (nat \<Rightarrow> GLuint) \<Rightarrow> string \<Rightarrow> string \<Rightarrow> GL \<times> SceneManager
     \<Rightarrow> error + (bool \<times> GL \<times> SceneManager)" where
  "CreateGLTexture stbi_load drv filename tg st =
     (case st of (gl, s) \<Rightarrow>
      (case stbi_load filename of
         Some img \<Rightarrow>
           (let (textureID, gl1) = glGenTextures drv gl;
                gl2 = gl1 @ [BindTexture textureID,
                             TexParameteri GL_TEXTURE_WRAP_S GL_REPEAT,
                             TexParameteri GL_TEXTURE_WRAP_T GL_REPEAT,
                             TexParameteri GL_TEXTURE_MIN_FILTER GL_LINEAR,
                             TexParameteri GL_TEXTURE_MAG_FILTER GL_LINEAR]
            in (case (if colorChannels img = 3
                        then Some (TexImage2D GL_RGB8 (width img) (height img) GL_RGB)
                      else if colorChannels img = 4
                        then Some (TexImage2D GL_RGBA8 (width img) (height img) GL_RGBA)
                      else None) of
                  None \<Rightarrow> Inr (False, gl2, s)
                | Some upload \<Rightarrow>
                    (let gl3 = gl2 @ [upload, GenerateMipmap, BindTexture 0];
                         n = m_loadedTextures s
                     in if 0 \<le> n \<and> n < int (length (m_textureIDs s))
                        then Inr (True, gl3,
                               s\<lparr> m_textureIDs :=
                                    (m_textureIDs s)[nat n :=
                                       (m_textureIDs s ! nat n)\<lparr> ID := textureID, tag := tg \<rparr>],
                                  m_loadedTextures := n + 1 \<rparr>)
                        else Inl OutOfBounds)))
       | None \<Rightarrow> Inr (False, gl, s)))"

function BindGLTextures_loop :: "SceneManager \<Rightarrow> int \<Rightarrow> GL \<Rightarrow> error + GL" where
  "BindGLTextures_loop s i gl =
     (if i < m_loadedTextures s
      then (if 0 \<le> i \<and> i < int (length (m_textureIDs s))
            then BindGLTextures_loop s (i + 1)
                   (gl @ [ActiveTexture i, BindTexture (ID (m_textureIDs s ! nat i))])
            else Inl OutOfBounds)
      else Inr gl)"
  by pat_completeness auto
termination
  by (relation "measure (\<lambda>(s, i, gl). nat (m_loadedTextures s - i))") auto

definition BindGLTextures :: "GL \<times> SceneManager \<Rightarrow> error + (GL \<times> SceneManager)" where
  "BindGLTextures st =
     (case st of (gl, s) \<Rightarrow>
        (case BindGLTextures_loop s 0 gl of
           Inl e \<Rightarrow> Inl e
         | Inr gl' \<Rightarrow> Inr (gl', s)))"

function DestroyGLTextures_loop ::
  "(nat \<Rightarrow> GLuint) \<Rightarrow> int \<Rightarrow> GL \<times> SceneManager \<Rightarrow> error + (GL \<times> SceneManager)" where
  "DestroyGLTextures_loop drv i st =
     (case st of (gl, s) \<Rightarrow>
        if i < m_loadedTextures s
        then (if 0 \<le> i \<and> i < int (length (m_textureIDs s))
              then (let (n, gl') = glGenTextures drv gl
                    in DestroyGLTextures_loop drv (i + 1)
                         (gl', s\<lparr> m_textureIDs :=
                                   (m_textureIDs s)[nat i := (m_textureIDs s ! nat i)\<lparr> ID := n \<rparr>] \<rparr>))
              else Inl OutOfBounds)
        else Inr (gl, s))"
  by pat_completeness auto
termination
  by (relation "measure (\<lambda>(drv, i, st). nat (m_loadedTextures (snd st) - i))")
     (auto simp: glGenTextures_def Let_def)

definition DestroyGLTextures ::
  "(nat \<Rightarrow> GLuint) \<Rightarrow> GL \<times> SceneManager \<Rightarrow> error + (GL \<times> SceneManager)" where
  "DestroyGLTextures drv st = DestroyGLTextures_loop drv 0 st"

text \<open>
  The two lookups scan \<open>m_textureIDs\<close> from index 0 while \<open>index < m_loadedTextures\<close>
  and nothing is found. The conversion of the \<^verbatim>\<open>GLuint\<close> field to the \<^verbatim>\<open>int\<close>
  result is \<open>sint\<close>.
\<close>

function FindTextureID_loop :: "SceneManager \<Rightarrow> string \<Rightarrow> int \<Rightarrow> bool \<Rightarrow> int \<Rightarrow> error + int" where
  "FindTextureID_loop s tg index bFound textureID =
     (if index < m_loadedTextures s \<and> bFound = False
      then (if 0 \<le> index \<and> index < int (length (m_textureIDs s))
            then (if tag (m_textureIDs s ! nat index) = tg
                  then FindTextureID_loop s tg index True (sint (ID (m_textureIDs s ! nat index)))
                  else FindTextureID_loop s tg (index + 1) bFound textureID)
            else Inl OutOfBounds)
      else Inr textureID)"
  by pat_completeness auto
termination
  by (relation "measure (\<lambda>(s, tg, index, bFound, textureID).
                   2 * nat (m_loadedTextures s - index) + (if bFound then 0 else 1))") auto

definition FindTextureID :: "SceneManager \<Rightarrow> string \<Rightarrow> error + int" where
  "FindTextureID s tg = FindTextureID_loop s tg 0 False (- 1)"

function FindTextureSlot_loop :: "SceneManager \<Rightarrow> string \<Rightarrow> int \<Rightarrow> bool \<Rightarrow> int \<Rightarrow> error + int" where
  "FindTextureSlot_loop s tg index bFound textureSlot =
     (if index < m_loadedTextures s \<and> bFound = False
      then (if 0 \<le> index \<and> index < int (length (m_textureIDs s))
            then (if tag (m_textureIDs s ! nat index) = tg
                  then FindTextureSlot_loop s tg index True index
                  else FindTextureSlot_loop s tg (index + 1) bFound textureSlot)
            else Inl OutOfBounds)
      else Inr textureSlot)"
  by pat_completeness auto
termination
  by (relation "measure (\<lambda>(s, tg, index, bFound, textureSlot).
                   2 * nat (m_loadedTextures s - index) + (if bFound then 0 else 1))") auto

definition FindTextureSlot :: "SceneManager \<Rightarrow> string \<Rightarrow> error + int" where
  "FindTextureSlot s tg = FindTextureSlot_loop s tg 0 False (- 1)"

text \<open>
  \<open>LoadSceneTextures\<close> calls \<open>CreateGLTexture\<close> fifteen times, overwriting
  \<open>bReturn\<close> each time and never reading it, then binds the textures.
\<close>

definition load_step ::
  "(string \<Rightarrow> image option) \<Rightarrow> (nat \<Rightarrow> GLuint) \<Rightarrow> string \<Rightarrow> string
     \<Rightarrow> error + (GL \<times> SceneManager) \<Rightarrow> error + (GL \<times> SceneManager)" where
  "load_step stbi_load drv filename tg r =
     (case r of
        Inl e \<Rightarrow> Inl e
      | Inr st \<Rightarrow>
          (case CreateGLTexture stbi_load drv filename tg st of
             Inl e \<Rightarrow> Inl e
           | Inr (bReturn, gl', s') \<Rightarrow> Inr (gl', s')))"

definition LoadSceneTextures ::
  "(string \<Rightarrow> image option) \<Rightarrow> (nat \<Rightarrow> GLuint) \<Rightarrow> GL \<times> SceneManager
     \<Rightarrow> error + (GL \<times> SceneManager)" where
  "LoadSceneTextures stbi_load drv st =
     (let r = Inr st;
          r = load_step stbi_load drv ''textures/granite_texture.jpg'' ''island top'' r;
          r = load_step stbi_load drv ''textures/plaster_texture.jpg'' ''island stand'' r;
          r = load_step stbi_load drv ''textures/wicker_light_texture.jpg'' ''stand base'' r;
          r = load_step stbi_load drv ''textures/light_wood_texture.jpg'' ''top torus'' r;
          r = load_step stbi_load drv ''textures/bamboo_texture.jpg'' ''torus'' r;
          r = load_step stbi_load drv ''textures/granite_texture.jpg'' ''island top'' r;
          r = load_step stbi_load drv ''textures/wood_shiny_texture.jpg'' ''bottom torus'' r;
          r = load_step stbi_load drv ''textures/wood_floor_texture.jpg'' ''floor'' r;
          r = load_step stbi_load drv ''textures/matte_black_metal.jpg'' ''candle snuffer'' r;
          r = load_step stbi_load drv ''textures/ceramic_texture.jpg'' ''pottery'' r;
          r = load_step stbi_load drv ''textures/leather_texture1.jpg'' ''fruit'' r;
          r = load_step stbi_load drv ''textures/paper_texture2.jpg'' ''paper'' r;
          r = load_step stbi_load drv ''textures/wax_texture.jpg'' ''wax'' r;
          r = load_step stbi_load drv ''textures/dark_wood_texture1.jpg'' ''dark wood'' r;
          r = load_step stbi_load drv ''textures/stainless.jpg'' ''steel'' r
      in (case r of Inl e \<Rightarrow> Inl e | Inr st' \<Rightarrow> BindGLTextures st'))"

section \<open>The material registry\<close>

text \<open>
  \<open>FindMaterial\<close> writes the five attributes of the first entry with the tag into
  the caller's record (the reference parameter, here returned beside the result) and
  leaves it as it was when no entry has the tag. Past the test for the empty vector
  its result is the constant \<^verbatim>\<open>true\<close>: \<open>bFound\<close> only stops the loop.
\<close>

function FindMaterial_loop ::
  "OBJECT_MATERIAL list \<Rightarrow> string \<Rightarrow> int \<Rightarrow> bool \<Rightarrow> OBJECT_MATERIAL \<Rightarrow> OBJECT_MATERIAL" where
  "FindMaterial_loop ms tg index bFound material =
     (if 0 \<le> index \<and> index < int (length ms) \<and> bFound = False
      then (if mtag (ms ! nat index) = tg
            then FindMaterial_loop ms tg index True
                   (material\<lparr> ambientColor := ambientColor (ms ! nat index),
                              ambientStrength := ambientStrength (ms ! nat index),
                              diffuseColor := diffuseColor (ms ! nat index),
                              specularColor := specularColor (ms ! nat index),
                              shininess := shininess (ms ! nat index) \<rparr>)
            else FindMaterial_loop ms tg (index + 1) bFound material)
      else material)"
  by pat_completeness auto
termination
  by (relation "measure (\<lambda>(ms, tg, index, bFound, material).
                   2 * nat (int (length ms) - index) + (if bFound then 0 else 1))") auto

definition FindMaterial :: "SceneManager \<Rightarrow> string \<Rightarrow> OBJECT_MATERIAL \<Rightarrow> bool \<times> OBJECT_MATERIAL" where
  "FindMaterial s tg material =
     (if length (m_objectMaterials s) = 0
      then (False, material)
      else (True, FindMaterial_loop (m_objectMaterials s) tg 0 False material))"

text \<open>
  \<open>SetShaderMaterial\<close> declares its local \<open>material\<close> without initialising it: its
  first contents are the parameter \<open>uninit\<close>. It dereferences \<open>m_pShaderManager\<close>
  without a test.
\<close>

definition SetShaderMaterial :: "OBJECT_MATERIAL \<Rightarrow> string \<Rightarrow> SceneManager \<Rightarrow> error + SceneManager" where
  "SetShaderMaterial uninit materialTag s =
     (if length (m_objectMaterials s) > 0
      then (let (bReturn, material) = FindMaterial s materialTag uninit
            in if bReturn = True
               then (case m_pShaderManager s of
                       None \<Rightarrow> Inl NullPointer
                     | Some sh \<Rightarrow>
                         Inr (s\<lparr> m_pShaderManager := Some
                                (setFloatValue ''material.shininess'' (shininess material)
                                (setVec3Value ''material.specularColor'' (specularColor material)
                                (setVec3Value ''material.diffuseColor'' (diffuseColor material)
                                (setFloatValue ''material.ambientStrength'' (ambientStrength material)
                                (setVec3Value ''material.ambientColor'' (ambientColor material) sh))))) \<rparr>))
               else Inr s)
      else Inr s)"

definition push_back :: "OBJECT_MATERIAL \<Rightarrow> SceneManager \<Rightarrow> SceneManager" where
  "push_back m s = s\<lparr> m_objectMaterials := m_objectMaterials s @ [m] \<rparr>"

text \<open>
  \<open>DefineObjectMaterials\<close> fills one local record per material and appends a copy of
  it to the vector. A local is declared without an initialiser: \<open>uninit v\<close> is what
  the local named \<open>v\<close> holds before its first assignment. The function returns
  nothing; \<open>DefineObjectMaterials_locals\<close> also gives the local \<open>glassMaterial\<close> as
  it is at the end of the body.
\<close>

definition DefineObjectMaterials_locals ::
  "(string \<Rightarrow> OBJECT_MATERIAL) \<Rightarrow> SceneManager \<Rightarrow> OBJECT_MATERIAL \<times> SceneManager" where
  "DefineObjectMaterials_locals uninit s =
     (let metalMaterial = uninit ''metalMaterial'';
          metalMaterial = metalMaterial\<lparr> ambientColor := Vec3 0.3 0.3 0.3 \<rparr>;
          metalMaterial = metalMaterial\<lparr> ambientStrength := 0.5 \<rparr>;
          metalMaterial = metalMaterial\<lparr> diffuseColor := Vec3 0.25 0.25 0.25 \<rparr>;
          metalMaterial = metalMaterial\<lparr> specularColor := Vec3 0.4 0.4 0.4 \<rparr>;
          metalMaterial = metalMaterial\<lparr> shininess := 30.0 \<rparr>;
          metalMaterial = metalMaterial\<lparr> mtag := ''metal'' \<rparr>;
          s = push_back metalMaterial s;

          woodMaterial = uninit ''woodMaterial'';
          woodMaterial = woodMaterial\<lparr> ambientColor := Vec3 0.20 0.20 0.20 \<rparr>;
          woodMaterial = woodMaterial\<lparr> ambientStrength := 0.25 \<rparr>;
          woodMaterial = woodMaterial\<lparr> diffuseColor := Vec3 0.4 0.4 0.4 \<rparr>;
          woodMaterial = woodMaterial\<lparr> specularColor := Vec3 0.15 0.15 0.15 \<rparr>;
          woodMaterial = woodMaterial\<lparr> shininess := 0.3 \<rparr>;
          woodMaterial = woodMaterial\<lparr> mtag := ''wood'' \<rparr>;
          s = push_back woodMaterial s;

          glassMaterial = uninit ''glassMaterial'';
          glassMaterial = glassMaterial\<lparr> ambientColor := Vec3 0.4 0.4 0.4 \<rparr>;
          glassMaterial = glassMaterial\<lparr> ambientStrength := 0.3 \<rparr>;
          glassMaterial = glassMaterial\<lparr> diffuseColor := Vec3 0.3 0.3 0.3 \<rparr>;
          glassMaterial = glassMaterial\<lparr> specularColor := Vec3 0.6 0.6 0.6 \<rparr>;
          glassMaterial = glassMaterial\<lparr> shininess := 85.0 \<rparr>;
          glassMaterial = glassMaterial\<lparr> mtag := ''glass'' \<rparr>;
          s = push_back glassMaterial s;

          ceramicMaterial = uninit ''ceramicMaterial'';
          ceramicMaterial = ceramicMaterial\<lparr> ambientColor := Vec3 0.6 0.6 0.6 \<rparr>;
          ceramicMaterial = ceramicMaterial\<lparr> ambientStrength := 0.25 \<rparr>;
          ceramicMaterial = ceramicMaterial\<lparr> diffuseColor := Vec3 0.86 0.82 0.78 \<rparr>;
          ceramicMaterial = ceramicMaterial\<lparr> specularColor := Vec3 0.0 0.0 0.0 \<rparr>;
          glassMaterial = glassMaterial\<lparr> shininess := 25.0 \<rparr>;
          ceramicMaterial = ceramicMaterial\<lparr> mtag := ''ceramic'' \<rparr>;
          s = push_back ceramicMaterial s;

          wallingMaterial = uninit ''wallingMaterial'';
          wallingMaterial = wallingMaterial\<lparr> ambientColor := Vec3 0.45 0.45 0.45 \<rparr>;
          wallingMaterial = wallingMaterial\<lparr> ambientStrength := 0.7 \<rparr>;
          wallingMaterial = wallingMaterial\<lparr> diffuseColor := Vec3 0.4 0.5 0.35 \<rparr>;
          wallingMaterial = wallingMaterial\<lparr> specularColor := Vec3 0.1 0.1 0.1 \<rparr>;
          wallingMaterial = wallingMaterial\<lparr> shininess := 0.0 \<rparr>;
          wallingMaterial = wallingMaterial\<lparr> mtag := ''walling'' \<rparr>;
          s = push_back wallingMaterial s;

          leatherMaterial = uninit ''leatherMaterial'';
          leatherMaterial = leatherMaterial\<lparr> ambientColor := Vec3 0.56 0.45 0.113 \<rparr>;
          leatherMaterial = leatherMaterial\<lparr> ambientStrength := 0.2 \<rparr>;
          leatherMaterial = leatherMaterial\<lparr> diffuseColor := Vec3 0.76 0.64 0.2 \<rparr>;
          leatherMaterial = leatherMaterial\<lparr> specularColor := Vec3 0.76 0.64 0.2 \<rparr>;
          leatherMaterial = leatherMaterial\<lparr> shininess := 0.0 \<rparr>;
          leatherMaterial = leatherMaterial\<lparr> mtag := ''leather'' \<rparr>;
          s = push_back leatherMaterial s;

          paperMaterial = uninit ''paperMaterial'';
          paperMaterial = paperMaterial\<lparr> ambientColor := Vec3 0.49 0.41 0.28 \<rparr>;
          paperMaterial = paperMaterial\<lparr> ambientStrength := 0.2 \<rparr>;
          paperMaterial = paperMaterial\<lparr> diffuseColor := Vec3 0.69 0.63 0.53 \<rparr>;
          paperMaterial = paperMaterial\<lparr> specularColor := Vec3 0.85 0.8 0.69 \<rparr>;
          paperMaterial = paperMaterial\<lparr> shininess := 0.5 \<rparr>;
          paperMaterial = paperMaterial\<lparr> mtag := ''parchment'' \<rparr>;
          s = push_back paperMaterial s
      in (glassMaterial, s))"

definition DefineObjectMaterials :: "(string \<Rightarrow> OBJECT_MATERIAL) \<Rightarrow> SceneManager \<Rightarrow> SceneManager" where
  "DefineObjectMaterials uninit s = snd (DefineObjectMaterials_locals uninit s)"

section \<open>The transform composer\<close>

subsection \<open>The GLM functions it calls\<close>

text \<open>
  GLM is a library outside the repository; the definitions follow its code for
  \<^verbatim>\<open>mat4 * vec4\<close>, \<^verbatim>\<open>mat4 * mat4\<close>, \<^verbatim>\<open>glm::scale\<close>, \<^verbatim>\<open>glm::rotate\<close>,
  \<^verbatim>\<open>glm::translate\<close> (the one-argument forms of \<^verbatim>\<open>glm/gtx/transform.hpp\<close>, which
  start from the identity matrix) and \<^verbatim>\<open>glm::radians\<close>, over the reals.
\<close>

fun vec4_add :: "vec4 \<Rightarrow> vec4 \<Rightarrow> vec4" where
  "vec4_add (Vec4 a b c d) (Vec4 e f g h) = Vec4 (a + e) (b + f) (c + g) (d + h)"

fun vec4_scale :: "vec4 \<Rightarrow> real \<Rightarrow> vec4" where
  "vec4_scale (Vec4 a b c d) k = Vec4 (a * k) (b * k) (c * k) (d * k)"

fun mat4_vec4 :: "mat4 \<Rightarrow> vec4 \<Rightarrow> vec4" where
  "mat4_vec4 (Mat4 m0 m1 m2 m3) (Vec4 x y z w) =
     vec4_add (vec4_add (vec4_scale m0 x) (vec4_scale m1 y))
              (vec4_add (vec4_scale m2 z) (vec4_scale m3 w))"

fun mat4_mul :: "mat4 \<Rightarrow> mat4 \<Rightarrow> mat4" where
  "mat4_mul m1 (Mat4 b0 b1 b2 b3) =
     Mat4 (mat4_vec4 m1 b0) (mat4_vec4 m1 b1) (mat4_vec4 m1 b2) (mat4_vec4 m1 b3)"

definition mat4_identity :: mat4 where
  "mat4_identity = Mat4 (Vec4 1 0 0 0) (Vec4 0 1 0 0) (Vec4 0 0 1 0) (Vec4 0 0 0 1)"

fun glm_scale_m :: "mat4 \<Rightarrow> vec3 \<Rightarrow> mat4" where
  "glm_scale_m (Mat4 m0 m1 m2 m3) (Vec3 x y z) =
     Mat4 (vec4_scale m0 x) (vec4_scale m1 y) (vec4_scale m2 z) m3"

fun glm_translate_m :: "mat4 \<Rightarrow> vec3 \<Rightarrow> mat4" where
  "glm_translate_m (Mat4 m0 m1 m2 m3) (Vec3 x y z) =
     Mat4 m0 m1 m2
       (vec4_add (vec4_add (vec4_add (vec4_scale m0 x) (vec4_scale m1 y)) (vec4_scale m2 z)) m3)"

fun glm_normalize :: "vec3 \<Rightarrow> vec3" where
  "glm_normalize (Vec3 x y z) =
     (let k = 1 / sqrt (x * x + y * y + z * z) in Vec3 (x * k) (y * k) (z * k))"

fun glm_rotate_m :: "mat4 \<Rightarrow> real \<Rightarrow> vec3 \<Rightarrow> mat4" where
  "glm_rotate_m (Mat4 m0 m1 m2 m3) angle v =
     (let c = cos angle; s = sin angle in
      (case glm_normalize v of Vec3 ax ay az \<Rightarrow>
        (let t0 = (1 - c) * ax; t1 = (1 - c) * ay; t2 = (1 - c) * az;
             r00 = c + t0 * ax;
             r01 = t0 * ay + s * az;
             r02 = t0 * az - s * ay;
             r10 = t1 * ax - s * az;
             r11 = c + t1 * ay;
             r12 = t1 * az + s * ax;
             r20 = t2 * ax + s * ay;
             r21 = t2 * ay - s * ax;
             r22 = c + t2 * az
         in Mat4 (vec4_add (vec4_add (vec4_scale m0 r00) (vec4_scale m1 r01)) (vec4_scale m2 r02))
                 (vec4_add (vec4_add (vec4_scale m0 r10) (vec4_scale m1 r11)) (vec4_scale m2 r12))
                 (vec4_add (vec4_add (vec4_scale m0 r20) (vec4_scale m1 r21)) (vec4_scale m2 r22))
                 m3)))"

definition glm_scale :: "vec3 \<Rightarrow> mat4" where
  "glm_scale v = glm_scale_m mat4_identity v"

definition glm_rotate :: "real \<Rightarrow> vec3 \<Rightarrow> mat4" where
  "glm_rotate angle v = glm_rotate_m mat4_identity angle v"

definition glm_translate :: "vec3 \<Rightarrow> mat4" where
  "glm_translate v = glm_translate_m mat4_identity v"

definition glm_radians :: "real \<Rightarrow> real" where
  "glm_radians degrees = degrees * pi / 180"

subsection \<open>SetTransformations and the shading helpers\<close>

definition SetTransformations ::
  "vec3 \<Rightarrow> real \<Rightarrow> real \<Rightarrow> real \<Rightarrow> vec3 \<Rightarrow> SceneManager \<Rightarrow> SceneManager" where
  "SetTransformations scaleXYZ XrotationDegrees YrotationDegrees ZrotationDegrees positionXYZ s =
     (let scale = glm_scale scaleXYZ;
          rotationX = glm_rotate (glm_radians XrotationDegrees) (Vec3 1 0 0);
          rotationY = glm_rotate (glm_radians YrotationDegrees) (Vec3 0 1 0);
          rotationZ = glm_rotate (glm_radians ZrotationDegrees) (Vec3 0 0 1);
          translation = glm_translate positionXYZ;
          modelView =
            mat4_mul (mat4_mul (mat4_mul (mat4_mul translation rotationX) rotationY) rotationZ) scale
      in (case m_pShaderManager s of
            None \<Rightarrow> s
          | Some sh \<Rightarrow> s\<lparr> m_pShaderManager := Some (setMat4Value g_ModelName modelView sh) \<rparr>))"

definition SetShaderColor :: "real \<Rightarrow> real \<Rightarrow> real \<Rightarrow> real \<Rightarrow> SceneManager \<Rightarrow> SceneManager" where
  "SetShaderColor redColorValue greenColorValue blueColorValue alphaValue s =
     (let currentColor = Vec4 redColorValue greenColorValue blueColorValue alphaValue
      in (case m_pShaderManager s of
            None \<Rightarrow> s
          | Some sh \<Rightarrow>
              s\<lparr> m_pShaderManager := Some
                   (setVec4Value g_ColorValueName currentColor
                   (setIntValue g_UseTextureName (int_of_bool False) sh)) \<rparr>))"

definition SetShaderTexture :: "string \<Rightarrow> SceneManager \<Rightarrow> error + SceneManager" where
  "SetShaderTexture textureTag s =
     (case m_pShaderManager s of
        None \<Rightarrow> Inr s
      | Some sh \<Rightarrow>
          (let sh1 = setIntValue g_UseTextureName (int_of_bool True) sh
           in (case FindTextureSlot s textureTag of
                 Inl e \<Rightarrow> Inl e
               | Inr textureID \<Rightarrow>
                   Inr (s\<lparr> m_pShaderManager := Some
                           (setSampler2DValue g_TextureValueName textureID sh1) \<rparr>))))"

definition SetTextureUVScale :: "real \<Rightarrow> real \<Rightarrow> SceneManager \<Rightarrow> SceneManager" where
  "SetTextureUVScale u v s =
     (case m_pShaderManager s of
        None \<Rightarrow> s
      | Some sh \<Rightarrow> s\<lparr> m_pShaderManager := Some (setVec2Value ''UVscale'' (Vec2 u v) sh) \<rparr>)"

section \<open>Notions the properties are stated with\<close>

subsection \<open>The registered entries\<close>

text \<open>
  The entries of the registry are the first \<open>m_loadedTextures\<close> cells of the array;
  the slot of an entry is its index. The counter is in range when it lies between 0
  and the size of the array.
\<close>

definition registered :: "SceneManager \<Rightarrow> TEXTURE_INFO list" where
  "registered s = take (nat (m_loadedTextures s)) (m_textureIDs s)"

definition registered_tags :: "SceneManager \<Rightarrow> string list" where
  "registered_tags s = map tag (registered s)"

definition registry_ok :: "SceneManager \<Rightarrow> bool" where
  "registry_ok s = (0 \<le> m_loadedTextures s \<and> m_loadedTextures s \<le> int (length (m_textureIDs s)))"

text \<open>
  A sequence of registration operations is a list of (file name, tag) requests passed
  to \<open>CreateGLTexture\<close> one after the other. A request succeeds when the file decodes
  to an image of 3 or 4 channels.
\<close>

definition decodes :: "(string \<Rightarrow> image option) \<Rightarrow> string \<Rightarrow> bool" where
  "decodes stbi_load filename =
     (case stbi_load filename of
        None \<Rightarrow> False
      | Some img \<Rightarrow> colorChannels img = 3 \<or> colorChannels img = 4)"

fun successful_tags :: "(string \<Rightarrow> image option) \<Rightarrow> (string \<times> string) list \<Rightarrow> string list" where
  "successful_tags stbi_load [] = []"
| "successful_tags stbi_load ((filename, tg) # reqs) =
     (if decodes stbi_load filename
      then tg # successful_tags stbi_load reqs
      else successful_tags stbi_load reqs)"

fun load_all ::
  "(string \<Rightarrow> image option) \<Rightarrow> (nat \<Rightarrow> GLuint) \<Rightarrow> (string \<times> string) list
     \<Rightarrow> error + (GL \<times> SceneManager) \<Rightarrow> error + (GL \<times> SceneManager)" where
  "load_all stbi_load drv [] r = r"
| "load_all stbi_load drv ((filename, tg) # reqs) r =
     load_all stbi_load drv reqs (load_step stbi_load drv filename tg r)"

text \<open>The requests of \<open>LoadSceneTextures\<close>, in the order of its calls.\<close>

definition scene_textures :: "(string \<times> string) list" where
  "scene_textures =
     [(''textures/granite_texture.jpg'', ''island top''),
      (''textures/plaster_texture.jpg'', ''island stand''),
      (''textures/wicker_light_texture.jpg'', ''stand base''),
      (''textures/light_wood_texture.jpg'', ''top torus''),
      (''textures/bamboo_texture.jpg'', ''torus''),
      (''textures/granite_texture.jpg'', ''island top''),
      (''textures/wood_shiny_texture.jpg'', ''bottom torus''),
      (''textures/wood_floor_texture.jpg'', ''floor''),
      (''textures/matte_black_metal.jpg'', ''candle snuffer''),
      (''textures/ceramic_texture.jpg'', ''pottery''),
      (''textures/leather_texture1.jpg'', ''fruit''),
      (''textures/paper_texture2.jpg'', ''paper''),
      (''textures/wax_texture.jpg'', ''wax''),
      (''textures/dark_wood_texture1.jpg'', ''dark wood''),
      (''textures/stainless.jpg'', ''steel'')]"

subsection \<open>Transformations of a point\<close>

text \<open>
  The spec's reading of the model matrix: the scaling, the three rotations and the
  translation as maps on points, written out coordinate by coordinate. \<open>point4\<close> is
  the point in homogeneous coordinates, as the shader multiplies it with the matrix.
\<close>

fun point4 :: "vec3 \<Rightarrow> vec4" where
  "point4 (Vec3 x y z) = Vec4 x y z 1"

fun scale_point :: "vec3 \<Rightarrow> vec3 \<Rightarrow> vec3" where
  "scale_point (Vec3 sx sy sz) (Vec3 x y z) = Vec3 (sx * x) (sy * y) (sz * z)"

fun rotate_x_point :: "real \<Rightarrow> vec3 \<Rightarrow> vec3" where
  "rotate_x_point a (Vec3 x y z) = Vec3 x (y * cos a - z * sin a) (y * sin a + z * cos a)"

fun rotate_y_point :: "real \<Rightarrow> vec3 \<Rightarrow> vec3" where
  "rotate_y_point a (Vec3 x y z) = Vec3 (x * cos a + z * sin a) y (z * cos a - x * sin a)"

fun rotate_z_point :: "real \<Rightarrow> vec3 \<Rightarrow> vec3" where
  "rotate_z_point a (Vec3 x y z) = Vec3 (x * cos a - y * sin a) (x * sin a + y * cos a) z"

fun translate_point :: "vec3 \<Rightarrow> vec3 \<Rightarrow> vec3" where
  "translate_point (Vec3 tx ty tz) (Vec3 x y z) = Vec3 (x + tx) (y + ty) (z + tz)"

subsection \<open>Sequences of helper calls before a draw\<close>

datatype helper_call =
    CallSetTransformations vec3 real real real vec3
  | CallSetShaderColor real real real real
  | CallSetShaderTexture string
  | CallSetTextureUVScale real real

fun do_call :: "helper_call \<Rightarrow> SceneManager \<Rightarrow> error + SceneManager" where
  "do_call (CallSetTransformations sc rx ry rz pos) s = Inr (SetTransformations sc rx ry rz pos s)"
| "do_call (CallSetShaderColor r g b a) s = Inr (SetShaderColor r g b a s)"
| "do_call (CallSetShaderTexture tg) s = SetShaderTexture tg s"
| "do_call (CallSetTextureUVScale u v) s = Inr (SetTextureUVScale u v s)"

fun do_calls :: "helper_call list \<Rightarrow> SceneManager \<Rightarrow> error + SceneManager" where
  "do_calls [] s = Inr s"
| "do_calls (c # cs) s = (case do_call c s of Inl e \<Rightarrow> Inl e | Inr s' \<Rightarrow> do_calls cs s')"

text \<open>
  The texture-use flag the shader reads at a draw: the current value of the uniform
  \<open>bUseTexture\<close>, \<open>None\<close> when there is no sink or nothing was pushed under the name.
\<close>

definition use_texture_flag :: "SceneManager \<Rightarrow> uniform_value option" where
  "use_texture_flag s =
     (case m_pShaderManager s of None \<Rightarrow> None | Some sh \<Rightarrow> uniform_of sh g_UseTextureName)"

text \<open>The flag the last colour or texture call of a sequence asks for.\<close>

fun last_request :: "helper_call list \<Rightarrow> uniform_value option \<Rightarrow> uniform_value option" where
  "last_request [] flag = flag"
| "last_request (CallSetShaderColor r g b a # cs) flag = last_request cs (Some (UInt 0))"
| "last_request (CallSetShaderTexture tg # cs) flag = last_request cs (Some (UInt 1))"
| "last_request (c # cs) flag = last_request cs flag"

subsection \<open>Concrete collaborators for the examples\<close>

text \<open>
  A decoder under which every file is a 4 by 4 RGB image, a driver that hands out the
  names 1, 2, 3, ..., a driver that hands out the largest name \<^verbatim>\<open>0xFFFFFFFF\<close>, and the
  scene manager of a result.
\<close>

definition rgb_image :: image where
  "rgb_image = \<lparr> width = 4, height = 4, colorChannels = 3 \<rparr>"

definition all_rgb :: "string \<Rightarrow> image option" where
  "all_rgb filename = Some rgb_image"

definition seq_names :: "nat \<Rightarrow> GLuint" where
  "seq_names k = of_nat k + 1"

definition max_name :: "nat \<Rightarrow> GLuint" where
  "max_name k = - 1"

definition scene_of :: "error + (GL \<times> SceneManager) \<Rightarrow> SceneManager option" where
  "scene_of r = (case r of Inl e \<Rightarrow> None | Inr (gl, s) \<Rightarrow> Some s)"

text \<open>The registry after one load under \<open>max_name\<close>: one entry, tagged \<open>a\<close>.\<close>

definition max_name_scene :: SceneManager where
  "max_name_scene =
     (new_SceneManager None)
       \<lparr> m_textureIDs := (m_textureIDs (new_SceneManager None))[0 := \<lparr> tag = ''a'', ID = - 1 \<rparr>],
         m_loadedTextures := 1 \<rparr>"

text \<open>The registry after loading \<open>a\<close> then \<open>b\<close> under \<open>seq_names\<close>.\<close>

definition ab_scene :: SceneManager where
  "ab_scene =
     (new_SceneManager None)
       \<lparr> m_textureIDs := (m_textureIDs (new_SceneManager None))
             [0 := \<lparr> tag = ''a'', ID = 1 \<rparr>, 1 := \<lparr> tag = ''b'', ID = 2 \<rparr>],
         m_loadedTextures := 2 \<rparr>"

text \<open>
  A material record with every field zero, a scene manager whose material registry holds
  the single tag \<open>metal\<close>, and the registry of \<open>ab_scene\<close> with a shader manager that
  has received nothing yet.
\<close>

definition zero_material :: OBJECT_MATERIAL where
  "zero_material =
     \<lparr> ambientColor = Vec3 0 0 0, ambientStrength = 0, diffuseColor = Vec3 0 0 0,
       specularColor = Vec3 0 0 0, shininess = 0, mtag = [] \<rparr>"

definition metal_scene :: SceneManager where
  "metal_scene =
     (new_SceneManager (Some []))\<lparr> m_objectMaterials := [zero_material\<lparr> mtag := ''metal'' \<rparr>] \<rparr>"

definition ab_sink_scene :: SceneManager where
  "ab_sink_scene = ab_scene\<lparr> m_pShaderManager := Some [] \<rparr>"

declare BindGLTextures_loop.simps [simp del]
declare DestroyGLTextures_loop.simps [simp del]
declare FindTextureID_loop.simps [simp del]
declare FindTextureSlot_loop.simps [simp del]
declare FindMaterial_loop.simps [simp del]

section \<open>Properties\<close>

subsection \<open>The two lookup loops\<close>

lemma FindTextureSlot_loop_found [simp]:
  "FindTextureSlot_loop s tg i True x = Inr x"
  by (simp add: FindTextureSlot_loop.simps)

lemma FindTextureID_loop_found [simp]:
  "FindTextureID_loop s tg i True x = Inr x"
  by (simp add: FindTextureID_loop.simps)

lemma loops_agree:
  "a < i \<Longrightarrow> \<not> bf \<Longrightarrow>
   FindTextureID_loop s tg i bf b =
     (case FindTextureSlot_loop s tg i bf a of
        Inl e \<Rightarrow> Inl e
      | Inr r \<Rightarrow> if r = a then Inr b else Inr (sint (ID (m_textureIDs s ! nat r))))"
proof (induction s tg i bf a rule: FindTextureSlot_loop.induct)
  case (1 s tg index bFound textureSlot)
  note nb = \<open>\<not> bFound\<close>
  show ?case
  proof (cases "index < m_loadedTextures s")
    case False
    have "FindTextureSlot_loop s tg index bFound textureSlot = Inr textureSlot"
      by (subst FindTextureSlot_loop.simps) (use False in simp)
    moreover have "FindTextureID_loop s tg index bFound b = Inr b"
      by (subst FindTextureID_loop.simps) (use False in simp)
    ultimately show ?thesis by simp
  next
    case lt: True
    show ?thesis
    proof (cases "0 \<le> index \<and> index < int (length (m_textureIDs s))")
      case False
      have "FindTextureSlot_loop s tg index bFound textureSlot = Inl OutOfBounds"
        by (subst FindTextureSlot_loop.simps) (use lt nb False in auto)
      moreover have "FindTextureID_loop s tg index bFound b = Inl OutOfBounds"
        by (subst FindTextureID_loop.simps) (use lt nb False in auto)
      ultimately show ?thesis by simp
    next
      case inr: True
      show ?thesis
      proof (cases "tag (m_textureIDs s ! nat index) = tg")
        case True
        have "FindTextureSlot_loop s tg index bFound textureSlot = Inr index"
          by (subst FindTextureSlot_loop.simps) (use lt nb inr True in simp)
        moreover have "FindTextureID_loop s tg index bFound b = Inr (sint (ID (m_textureIDs s ! nat index)))"
          by (subst FindTextureID_loop.simps) (use lt nb inr True in simp)
        ultimately show ?thesis using "1.prems" by simp
      next
        case False
        from "1.prems" have "textureSlot < index + 1" by simp
        from "1.IH"(2) [OF _ inr False this nb] lt nb
        have "FindTextureID_loop s tg (index + 1) bFound b =
          (case FindTextureSlot_loop s tg (index + 1) bFound textureSlot of Inl e \<Rightarrow> Inl e
            | Inr r \<Rightarrow> if r = textureSlot then Inr b else Inr (sint (ID (m_textureIDs s ! nat r))))"
          by simp
        moreover have "FindTextureSlot_loop s tg index bFound textureSlot
                       = FindTextureSlot_loop s tg (index + 1) bFound textureSlot"
          by (subst FindTextureSlot_loop.simps) (use lt nb inr False in simp)
        moreover have "FindTextureID_loop s tg index bFound b = FindTextureID_loop s tg (index + 1) bFound b"
          by (subst FindTextureID_loop.simps) (use lt nb inr False in simp)
        ultimately show ?thesis by simp
      qed
    qed
  qed
qed

lemma FindTextureSlot_loop_miss:
  "\<not> bf \<Longrightarrow> 0 \<le> i \<Longrightarrow> m_loadedTextures s \<le> int (length (m_textureIDs s)) \<Longrightarrow>
   (\<forall>j. i \<le> j \<and> j < m_loadedTextures s \<longrightarrow> tag (m_textureIDs s ! nat j) \<noteq> tg) \<Longrightarrow>
   FindTextureSlot_loop s tg i bf a = Inr a"
proof (induction s tg i bf a rule: FindTextureSlot_loop.induct)
  case (1 s tg index bFound textureSlot)
  note nb = \<open>\<not> bFound\<close>
  show ?case
  proof (cases "index < m_loadedTextures s")
    case False
    then show ?thesis by (subst FindTextureSlot_loop.simps) simp
  next
    case lt: True
    with "1.prems" have inr: "0 \<le> index \<and> index < int (length (m_textureIDs s))" by simp
    from lt "1.prems" have ne: "tag (m_textureIDs s ! nat index) \<noteq> tg" by simp
    have "FindTextureSlot_loop s tg (index + 1) bFound textureSlot = Inr textureSlot"
      using "1.IH"(2) [OF _ inr ne nb] lt nb "1.prems" by simp
    then show ?thesis
      by (subst FindTextureSlot_loop.simps) (use lt nb inr ne in simp)
  qed
qed

lemma FindTextureSlot_loop_hit:
  "\<not> bf \<Longrightarrow> 0 \<le> i \<Longrightarrow> i \<le> k \<Longrightarrow> k < m_loadedTextures s \<Longrightarrow>
   m_loadedTextures s \<le> int (length (m_textureIDs s)) \<Longrightarrow>
   tag (m_textureIDs s ! nat k) = tg \<Longrightarrow>
   (\<forall>j. i \<le> j \<and> j < k \<longrightarrow> tag (m_textureIDs s ! nat j) \<noteq> tg) \<Longrightarrow>
   FindTextureSlot_loop s tg i bf a = Inr k"
proof (induction s tg i bf a rule: FindTextureSlot_loop.induct)
  case (1 s tg index bFound textureSlot)
  note nb = \<open>\<not> bFound\<close>
  from "1.prems" have lt: "index < m_loadedTextures s" by simp
  with "1.prems" have inr: "0 \<le> index \<and> index < int (length (m_textureIDs s))" by simp
  show ?case
  proof (cases "index = k")
    case True
    with "1.prems" have "tag (m_textureIDs s ! nat index) = tg" by simp
    then show ?thesis
      by (subst FindTextureSlot_loop.simps) (use lt nb inr True in simp)
  next
    case False
    with "1.prems" have ne: "tag (m_textureIDs s ! nat index) \<noteq> tg" by simp
    have "FindTextureSlot_loop s tg (index + 1) bFound textureSlot = Inr k"
      using "1.IH"(2) [OF _ inr ne nb] lt nb "1.prems" False by simp
    then show ?thesis
      by (subst FindTextureSlot_loop.simps) (use lt nb inr ne in simp)
  qed
qed

lemma registered_tags_nth:
  "registry_ok s \<Longrightarrow> j < nat (m_loadedTextures s) \<Longrightarrow>
   registered_tags s ! j = tag (m_textureIDs s ! j)"
proof -
  assume ok: "registry_ok s" and j: "j < nat (m_loadedTextures s)"
  then have "j < length (take (nat (m_loadedTextures s)) (m_textureIDs s))"
    unfolding registry_ok_def by simp linarith
  then show ?thesis
    using j by (simp add: registered_tags_def registered_def)
qed

lemma length_registered_tags:
  "registry_ok s \<Longrightarrow> length (registered_tags s) = nat (m_loadedTextures s)"
  by (auto simp: registered_tags_def registered_def registry_ok_def)

lemma FindTextureSlot_miss:
  assumes ok: "registry_ok s" and miss: "tg \<notin> set (registered_tags s)"
  shows "FindTextureSlot s tg = Inr (- 1)"
proof -
  have "\<forall>j. 0 \<le> j \<and> j < m_loadedTextures s \<longrightarrow> tag (m_textureIDs s ! nat j) \<noteq> tg"
  proof (intro allI impI)
    fix j :: int assume j: "0 \<le> j \<and> j < m_loadedTextures s"
    then have n: "nat j < nat (m_loadedTextures s)" by simp
    then have "registered_tags s ! nat j \<in> set (registered_tags s)"
      using length_registered_tags [OF ok] by simp
    with miss registered_tags_nth [OF ok n] show "tag (m_textureIDs s ! nat j) \<noteq> tg" by auto
  qed
  then show ?thesis
    unfolding FindTextureSlot_def
    using ok by (intro FindTextureSlot_loop_miss) (simp_all add: registry_ok_def)
qed

lemma FindTextureSlot_hit:
  assumes ok: "registry_ok s" and k: "k < length (registered_tags s)"
    and hit: "registered_tags s ! k = tg"
    and first: "\<forall>j<k. registered_tags s ! j \<noteq> tg"
  shows "FindTextureSlot s tg = Inr (int k)"
proof -
  from k have kl: "k < nat (m_loadedTextures s)" using length_registered_tags [OF ok] by simp
  have a: "tag (m_textureIDs s ! nat (int k)) = tg"
    using registered_tags_nth [OF ok kl] hit by simp
  have b: "\<forall>j. 0 \<le> j \<and> j < int k \<longrightarrow> tag (m_textureIDs s ! nat j) \<noteq> tg"
  proof (intro allI impI)
    fix j :: int assume j: "0 \<le> j \<and> j < int k"
    then have "nat j < k" by linarith
    moreover from this kl have "nat j < nat (m_loadedTextures s)" by linarith
    ultimately show "tag (m_textureIDs s ! nat j) \<noteq> tg"
      using first registered_tags_nth [OF ok, of "nat j"] by auto
  qed
  show ?thesis
    unfolding FindTextureSlot_def
    using ok kl a b by (intro FindTextureSlot_loop_hit) (simp_all add: registry_ok_def)
qed

subsection \<open>Sequences of loads\<close>

lemma CreateGLTexture_fail:
  "\<not> decodes stbi_load filename \<Longrightarrow>
   \<exists>gl'. CreateGLTexture stbi_load drv filename tg (gl, s) = Inr (False, gl', s)"
  by (auto simp: CreateGLTexture_def decodes_def Let_def glGenTextures_def split: option.splits)

lemma CreateGLTexture_full:
  "decodes stbi_load filename \<Longrightarrow>
   \<not> (0 \<le> m_loadedTextures s \<and> m_loadedTextures s < int (length (m_textureIDs s))) \<Longrightarrow>
   CreateGLTexture stbi_load drv filename tg (gl, s) = Inl OutOfBounds"
  by (auto simp: CreateGLTexture_def decodes_def Let_def glGenTextures_def split: option.splits)

lemma CreateGLTexture_ok:
  "decodes stbi_load filename \<Longrightarrow>
   0 \<le> m_loadedTextures s \<Longrightarrow> m_loadedTextures s < int (length (m_textureIDs s)) \<Longrightarrow>
   \<exists>gl'. CreateGLTexture stbi_load drv filename tg (gl, s) =
     Inr (True, gl',
          s\<lparr> m_textureIDs := (m_textureIDs s)[nat (m_loadedTextures s) :=
                 (m_textureIDs s ! nat (m_loadedTextures s))
                   \<lparr> ID := drv (length (filter is_GenTextures gl)), tag := tg \<rparr>],
             m_loadedTextures := m_loadedTextures s + 1 \<rparr>)"
  by (auto simp: CreateGLTexture_def decodes_def Let_def glGenTextures_def split: option.splits)

lemma registered_tags_append:
  assumes "0 \<le> m_loadedTextures s" "m_loadedTextures s < int (length (m_textureIDs s))"
  shows "registered_tags
           (s\<lparr> m_textureIDs := (m_textureIDs s)[nat (m_loadedTextures s) :=
                  (m_textureIDs s ! nat (m_loadedTextures s)) \<lparr> ID := n, tag := tg \<rparr>],
              m_loadedTextures := m_loadedTextures s + 1 \<rparr>)
         = registered_tags s @ [tg]"
proof -
  let ?k = "nat (m_loadedTextures s)"
  have k: "?k < length (m_textureIDs s)" using assms by linarith
  have "nat (m_loadedTextures s + 1) = Suc ?k" using assms by simp
  then show ?thesis
    using k by (simp add: registered_tags_def registered_def take_Suc_conv_app_nth)
qed

lemma load_step_Inl [simp]: "load_step stbi_load drv filename tg (Inl e) = Inl e"
  by (simp add: load_step_def)

lemma load_all_Inl [simp]: "load_all stbi_load drv reqs (Inl e) = Inl e"
  by (induction reqs) auto

lemma load_all_fits:
  "registry_ok s \<Longrightarrow>
   m_loadedTextures s + int (length (successful_tags stbi_load reqs)) \<le> int (length (m_textureIDs s)) \<Longrightarrow>
   \<exists>gl' s'. load_all stbi_load drv reqs (Inr (gl, s)) = Inr (gl', s')
      \<and> registry_ok s'
      \<and> m_loadedTextures s' = m_loadedTextures s + int (length (successful_tags stbi_load reqs))
      \<and> registered_tags s' = registered_tags s @ successful_tags stbi_load reqs
      \<and> length (m_textureIDs s') = length (m_textureIDs s)
      \<and> m_pShaderManager s' = m_pShaderManager s
      \<and> m_objectMaterials s' = m_objectMaterials s"
proof (induction reqs arbitrary: gl s)
  case Nil
  then show ?case by simp
next
  case (Cons rq reqs)
  obtain filename tg where rq: "rq = (filename, tg)" by (cases rq)
  show ?case
  proof (cases "decodes stbi_load filename")
    case False
    from CreateGLTexture_fail [OF False, of drv tg gl s]
    obtain gl1 where "CreateGLTexture stbi_load drv filename tg (gl, s) = Inr (False, gl1, s)" ..
    then have st: "load_step stbi_load drv filename tg (Inr (gl, s)) = Inr (gl1, s)"
      by (simp add: load_step_def)
    from Cons.prems False rq
    have "m_loadedTextures s + int (length (successful_tags stbi_load reqs)) \<le> int (length (m_textureIDs s))"
      by simp
    from Cons.IH [OF Cons.prems(1) this, of gl1] show ?thesis
      using rq st False by simp
  next
    case True
    from Cons.prems True rq
    have lt: "m_loadedTextures s < int (length (m_textureIDs s))" and ge: "0 \<le> m_loadedTextures s"
      by (simp_all add: registry_ok_def)
    define s1 where "s1 = s\<lparr> m_textureIDs := (m_textureIDs s)[nat (m_loadedTextures s) :=
                 (m_textureIDs s ! nat (m_loadedTextures s))
                   \<lparr> ID := drv (length (filter is_GenTextures gl)), tag := tg \<rparr>],
             m_loadedTextures := m_loadedTextures s + 1 \<rparr>"
    from CreateGLTexture_ok [OF True ge lt, of drv tg gl]
    obtain gl1 where "CreateGLTexture stbi_load drv filename tg (gl, s) = Inr (True, gl1, s1)"
      unfolding s1_def ..
    then have st: "load_step stbi_load drv filename tg (Inr (gl, s)) = Inr (gl1, s1)"
      by (simp add: load_step_def)
    have ok1: "registry_ok s1" using lt ge by (simp add: s1_def registry_ok_def)
    have tags1: "registered_tags s1 = registered_tags s @ [tg]"
      unfolding s1_def by (rule registered_tags_append [OF ge lt])
    have n1: "m_loadedTextures s1 = m_loadedTextures s + 1" and len1: "length (m_textureIDs s1) = length (m_textureIDs s)"
      and sh1: "m_pShaderManager s1 = m_pShaderManager s" and mat1: "m_objectMaterials s1 = m_objectMaterials s"
      by (simp_all add: s1_def)
    from Cons.prems True rq n1 len1
    have "m_loadedTextures s1 + int (length (successful_tags stbi_load reqs)) \<le> int (length (m_textureIDs s1))"
      by simp
    from Cons.IH [OF ok1 this, of gl1] show ?thesis
      using rq st True tags1 n1 len1 sh1 mat1 by auto
  qed
qed

lemma load_all_overflow:
  "registry_ok s \<Longrightarrow>
   m_loadedTextures s + int (length (successful_tags stbi_load reqs)) > int (length (m_textureIDs s)) \<Longrightarrow>
   load_all stbi_load drv reqs (Inr (gl, s)) = Inl OutOfBounds"
proof (induction reqs arbitrary: gl s)
  case Nil
  then show ?case by (simp add: registry_ok_def)
next
  case (Cons rq reqs)
  obtain filename tg where rq: "rq = (filename, tg)" by (cases rq)
  show ?case
  proof (cases "decodes stbi_load filename")
    case False
    from CreateGLTexture_fail [OF False, of drv tg gl s]
    obtain gl1 where "CreateGLTexture stbi_load drv filename tg (gl, s) = Inr (False, gl1, s)" ..
    then have st: "load_step stbi_load drv filename tg (Inr (gl, s)) = Inr (gl1, s)"
      by (simp add: load_step_def)
    from Cons.prems False rq
    have "m_loadedTextures s + int (length (successful_tags stbi_load reqs)) > int (length (m_textureIDs s))"
      by simp
    from Cons.IH [OF Cons.prems(1) this, of gl1] show ?thesis
      using rq st by simp
  next
    case True
    show ?thesis
    proof (cases "m_loadedTextures s < int (length (m_textureIDs s))")
      case False
      then have "CreateGLTexture stbi_load drv filename tg (gl, s) = Inl OutOfBounds"
        by (intro CreateGLTexture_full [OF True]) simp
      then show ?thesis using rq by (simp add: load_step_def)
    next
      case lt: True
      from Cons.prems have ge: "0 \<le> m_loadedTextures s" by (simp add: registry_ok_def)
      define s1 where "s1 = s\<lparr> m_textureIDs := (m_textureIDs s)[nat (m_loadedTextures s) :=
                 (m_textureIDs s ! nat (m_loadedTextures s))
                   \<lparr> ID := drv (length (filter is_GenTextures gl)), tag := tg \<rparr>],
             m_loadedTextures := m_loadedTextures s + 1 \<rparr>"
      from CreateGLTexture_ok [OF True ge lt, of drv tg gl]
      obtain gl1 where "CreateGLTexture stbi_load drv filename tg (gl, s) = Inr (True, gl1, s1)"
        unfolding s1_def ..
      then have st: "load_step stbi_load drv filename tg (Inr (gl, s)) = Inr (gl1, s1)"
        by (simp add: load_step_def)
      have ok1: "registry_ok s1" using lt ge by (simp add: s1_def registry_ok_def)
      have n1: "m_loadedTextures s1 = m_loadedTextures s + 1" and len1: "length (m_textureIDs s1) = length (m_textureIDs s)"
        by (simp_all add: s1_def)
      from Cons.prems True rq n1 len1
      have "m_loadedTextures s1 + int (length (successful_tags stbi_load reqs)) > int (length (m_textureIDs s1))"
        by simp
      from Cons.IH [OF ok1 this, of gl1] show ?thesis
        using rq st by simp
    qed
  qed
qed

lemma registry_ok_new [simp]: "registry_ok (new_SceneManager p)"
  by (simp add: registry_ok_def new_SceneManager_def)

lemma registered_tags_new [simp]: "registered_tags (new_SceneManager p) = []"
  by (simp add: registered_tags_def registered_def new_SceneManager_def)

lemma new_fields [simp]:
  "m_loadedTextures (new_SceneManager p) = 0"
  "length (m_textureIDs (new_SceneManager p)) = MAX_TEXTURES"
  "m_pShaderManager (new_SceneManager p) = p"
  "m_objectMaterials (new_SceneManager p) = []"
  by (simp_all add: new_SceneManager_def)

lemma BindGLTextures_loop_total:
  "0 \<le> i \<Longrightarrow> m_loadedTextures s \<le> int (length (m_textureIDs s)) \<Longrightarrow>
   \<exists>gl'. BindGLTextures_loop s i gl = Inr gl'"
proof (induction s i gl rule: BindGLTextures_loop.induct)
  case (1 s i gl)
  show ?case
  proof (cases "i < m_loadedTextures s")
    case False
    then show ?thesis by (subst BindGLTextures_loop.simps) simp
  next
    case True
    with "1.prems" have inr: "0 \<le> i \<and> i < int (length (m_textureIDs s))" by simp
    from "1.IH" [OF True inr] "1.prems"
    obtain gl' where "BindGLTextures_loop s (i + 1)
        (gl @ [ActiveTexture i, BindTexture (ID (m_textureIDs s ! nat i))]) = Inr gl'"
      by auto
    then show ?thesis
      by (subst BindGLTextures_loop.simps) (use True inr in simp)
  qed
qed

lemma BindGLTextures_total:
  "registry_ok s \<Longrightarrow> \<exists>gl'. BindGLTextures (gl, s) = Inr (gl', s)"
proof -
  assume "registry_ok s"
  then obtain gl' where "BindGLTextures_loop s 0 gl = Inr gl'"
    using BindGLTextures_loop_total [of 0 s gl] by (auto simp: registry_ok_def)
  then show ?thesis by (simp add: BindGLTextures_def)
qed

lemma LoadSceneTextures_load_all:
  "LoadSceneTextures stbi_load drv st =
     (case load_all stbi_load drv scene_textures (Inr st) of
        Inl e \<Rightarrow> Inl e
      | Inr st' \<Rightarrow> BindGLTextures st')"
  by (simp add: LoadSceneTextures_def scene_textures_def Let_def)

lemma length_successful_tags: "length (successful_tags stbi_load reqs) \<le> length reqs"
  by (induction reqs) (auto split: if_splits)

lemma length_scene_textures: "length scene_textures = 15"
  by (simp add: scene_textures_def)

lemma LoadSceneTextures_result:
  "\<exists>gl' s'. LoadSceneTextures stbi_load drv (gl, new_SceneManager p) = Inr (gl', s')
      \<and> registry_ok s'
      \<and> m_loadedTextures s' = int (length (successful_tags stbi_load scene_textures))
      \<and> registered_tags s' = successful_tags stbi_load scene_textures
      \<and> length (m_textureIDs s') = MAX_TEXTURES"
proof -
  have "length (successful_tags stbi_load scene_textures) \<le> 15"
    using length_successful_tags [of stbi_load scene_textures] length_scene_textures by simp
  then have fits: "m_loadedTextures (new_SceneManager p)
        + int (length (successful_tags stbi_load scene_textures))
      \<le> int (length (m_textureIDs (new_SceneManager p)))"
    by (simp add: MAX_TEXTURES_def)
  from load_all_fits [OF registry_ok_new fits, of drv gl]
  obtain gl1 s1 where l: "load_all stbi_load drv scene_textures (Inr (gl, new_SceneManager p)) = Inr (gl1, s1)"
    and ok: "registry_ok s1"
    and n: "m_loadedTextures s1 = int (length (successful_tags stbi_load scene_textures))"
    and tags: "registered_tags s1 = successful_tags stbi_load scene_textures"
    and len: "length (m_textureIDs s1) = MAX_TEXTURES"
    by auto
  from BindGLTextures_total [OF ok, of gl1] obtain gl2 where "BindGLTextures (gl1, s1) = Inr (gl2, s1)" ..
  with l have "LoadSceneTextures stbi_load drv (gl, new_SceneManager p) = Inr (gl2, s1)"
    by (simp add: LoadSceneTextures_load_all)
  with ok n tags len show ?thesis by blast
qed

lemma FindTextureSlot_loop_inside:
  "FindTextureSlot_loop s tg i bf a = Inr r \<Longrightarrow> \<not> bf \<Longrightarrow>
   r = a \<or> (0 \<le> r \<and> r < int (length (m_textureIDs s)) \<and> r < m_loadedTextures s)"
proof (induction s tg i bf a rule: FindTextureSlot_loop.induct)
  case (1 s tg index bFound textureSlot)
  note nb = \<open>\<not> bFound\<close>
  note res = \<open>FindTextureSlot_loop s tg index bFound textureSlot = Inr r\<close>
  show ?case
  proof (cases "index < m_loadedTextures s")
    case False
    with res show ?thesis by (subst (asm) FindTextureSlot_loop.simps) simp
  next
    case lt: True
    show ?thesis
    proof (cases "0 \<le> index \<and> index < int (length (m_textureIDs s))")
      case False
      with lt nb res show ?thesis by (subst (asm) FindTextureSlot_loop.simps) auto
    next
      case inr: True
      show ?thesis
      proof (cases "tag (m_textureIDs s ! nat index) = tg")
        case True
        with lt nb inr res show ?thesis by (subst (asm) FindTextureSlot_loop.simps) auto
      next
        case False
        with lt nb inr res
        have "FindTextureSlot_loop s tg (index + 1) bFound textureSlot = Inr r"
          by (subst (asm) FindTextureSlot_loop.simps) auto
        from "1.IH"(2) [OF _ inr False this nb] lt nb
        show ?thesis by auto
      qed
    qed
  qed
qed

lemma sint_eq_minus1: "sint (w :: 32 word) = - 1 \<longleftrightarrow> w = - 1"
proof
  assume "sint w = - 1"
  then have "sint w = sint (- 1 :: 32 word)" by simp
  then show "w = - 1" by (rule signed_word_eqI)
next
  assume "w = - 1"
  then show "sint w = - 1" by simp
qed

lemma max_name_scene_reached:
  "scene_of (load_all all_rgb max_name [(''a.jpg'', ''a'')] (Inr ([], new_SceneManager None)))
     = Some max_name_scene"
  by (simp add: scene_of_def load_step_def CreateGLTexture_def all_rgb_def rgb_image_def
      glGenTextures_def max_name_def max_name_scene_def new_SceneManager_def MAX_TEXTURES_def Let_def)

lemma load_all_Inr_fits:
  assumes ok: "registry_ok s"
    and res: "load_all stbi_load drv reqs (Inr (gl, s)) = Inr (gl', s')"
  shows "registry_ok s' \<and> registered_tags s' = registered_tags s @ successful_tags stbi_load reqs"
proof -
  have "\<not> m_loadedTextures s + int (length (successful_tags stbi_load reqs)) > int (length (m_textureIDs s))"
    using load_all_overflow [OF ok, of stbi_load reqs drv gl] res by auto
  then have "m_loadedTextures s + int (length (successful_tags stbi_load reqs)) \<le> int (length (m_textureIDs s))"
    by simp
  from load_all_fits [OF ok this, of drv gl] res show ?thesis by auto
qed

lemma ab_scene_reached:
  "load_all all_rgb seq_names [(''a.jpg'', ''a''), (''b.jpg'', ''b'')] (Inr ([], new_SceneManager None))
     = Inr ([GenTextures 1, BindTexture 1,
             TexParameteri GL_TEXTURE_WRAP_S GL_REPEAT, TexParameteri GL_TEXTURE_WRAP_T GL_REPEAT,
             TexParameteri GL_TEXTURE_MIN_FILTER GL_LINEAR, TexParameteri GL_TEXTURE_MAG_FILTER GL_LINEAR,
             TexImage2D GL_RGB8 4 4 GL_RGB, GenerateMipmap, BindTexture 0,
             GenTextures 2, BindTexture 2,
             TexParameteri GL_TEXTURE_WRAP_S GL_REPEAT, TexParameteri GL_TEXTURE_WRAP_T GL_REPEAT,
             TexParameteri GL_TEXTURE_MIN_FILTER GL_LINEAR, TexParameteri GL_TEXTURE_MAG_FILTER GL_LINEAR,
             TexImage2D GL_RGB8 4 4 GL_RGB, GenerateMipmap, BindTexture 0], ab_scene)"
  by (simp add: load_step_def CreateGLTexture_def all_rgb_def rgb_image_def
      glGenTextures_def seq_names_def ab_scene_def new_SceneManager_def MAX_TEXTURES_def Let_def)

lemma successful_tags_all_rgb: "successful_tags all_rgb reqs = map snd reqs"
  by (induction reqs) (auto simp: decodes_def all_rgb_def rgb_image_def)

subsection \<open>Regenerating the texture names\<close>

lemma DestroyGLTextures_loop_inv:
  "0 \<le> i \<Longrightarrow> i \<le> m_loadedTextures (snd st) \<Longrightarrow>
   m_loadedTextures (snd st) \<le> int (length (m_textureIDs (snd st))) \<Longrightarrow>
   \<exists>gl' s'. DestroyGLTextures_loop drv i st = Inr (gl', s')
     \<and> m_loadedTextures s' = m_loadedTextures (snd st)
     \<and> m_pShaderManager s' = m_pShaderManager (snd st)
     \<and> m_objectMaterials s' = m_objectMaterials (snd st)
     \<and> length (m_textureIDs s') = length (m_textureIDs (snd st))
     \<and> (\<forall>j < length (m_textureIDs (snd st)).
           tag (m_textureIDs s' ! j) = tag (m_textureIDs (snd st) ! j))
     \<and> (\<forall>j < length (m_textureIDs (snd st)). j < nat i \<longrightarrow>
           m_textureIDs s' ! j = m_textureIDs (snd st) ! j)
     \<and> (\<forall>j. nat i \<le> j \<and> j < nat (m_loadedTextures (snd st)) \<longrightarrow>
           ID (m_textureIDs s' ! j) = drv (length (filter is_GenTextures (fst st)) + (j - nat i)))
     \<and> gl' = fst st @ map (\<lambda>k. GenTextures (drv (length (filter is_GenTextures (fst st)) + k)))
                         [0 ..< nat (m_loadedTextures (snd st)) - nat i]"
proof (induction drv i st rule: DestroyGLTextures_loop.induct)
  case (1 drv i st)
  obtain gl s where st: "st = (gl, s)" by (cases st)
  let ?g = "length (filter is_GenTextures gl)"
  show ?case
  proof (cases "i < m_loadedTextures s")
    case False
    with "1.prems" st have "i = m_loadedTextures s" by simp
    then have "DestroyGLTextures_loop drv i st = Inr (gl, s)"
      by (subst DestroyGLTextures_loop.simps) (simp add: st)
    with \<open>i = m_loadedTextures s\<close> show ?thesis by (auto simp: st)
  next
    case lt: True
    with "1.prems" st have inr: "0 \<le> i \<and> i < int (length (m_textureIDs s))" by simp
    let ?s1 = "s\<lparr> m_textureIDs :=
        (m_textureIDs s)[nat i := (m_textureIDs s ! nat i)\<lparr> ID := drv ?g \<rparr>] \<rparr>"
    let ?gl1 = "gl @ [GenTextures (drv ?g)]"
    have gen: "glGenTextures drv gl = (drv ?g, ?gl1)"
      by (simp add: glGenTextures_def st Let_def)
    have unfold: "DestroyGLTextures_loop drv i st = DestroyGLTextures_loop drv (i + 1) (?gl1, ?s1)"
      by (subst DestroyGLTextures_loop.simps) (simp add: st lt inr gen st)
    have p1: "0 \<le> i + 1" "i + 1 \<le> m_loadedTextures (snd (?gl1, ?s1))"
      "m_loadedTextures (snd (?gl1, ?s1)) \<le> int (length (m_textureIDs (snd (?gl1, ?s1))))"
      using lt inr "1.prems" st by (simp_all add: st)
    from "1.IH" [OF st [symmetric] lt inr refl gen [symmetric] p1]
    obtain gl' s' where r: "DestroyGLTextures_loop drv (i + 1) (?gl1, ?s1) = Inr (gl', s')"
      and n: "m_loadedTextures s' = m_loadedTextures ?s1"
      and sh: "m_pShaderManager s' = m_pShaderManager ?s1"
      and mat: "m_objectMaterials s' = m_objectMaterials ?s1"
      and len: "length (m_textureIDs s') = length (m_textureIDs ?s1)"
      and tags: "\<forall>j < length (m_textureIDs ?s1). tag (m_textureIDs s' ! j) = tag (m_textureIDs ?s1 ! j)"
      and before: "\<forall>j < length (m_textureIDs ?s1). j < nat (i + 1) \<longrightarrow>
                     m_textureIDs s' ! j = m_textureIDs ?s1 ! j"
      and ids: "\<forall>j. nat (i + 1) \<le> j \<and> j < nat (m_loadedTextures ?s1) \<longrightarrow>
                  ID (m_textureIDs s' ! j) = drv (length (filter is_GenTextures ?gl1) + (j - nat (i + 1)))"
      and log: "gl' = ?gl1 @ map (\<lambda>k. GenTextures (drv (length (filter is_GenTextures ?gl1) + k)))
                         [0 ..< nat (m_loadedTextures ?s1) - nat (i + 1)]"
      by auto
    have g1: "length (filter is_GenTextures ?gl1) = Suc ?g" by (simp add: st)
    have i1: "nat (i + 1) = Suc (nat i)" using inr by linarith
    have ni: "nat i < length (m_textureIDs s)" using inr by linarith
    have nl: "nat i < nat (m_loadedTextures s)" using lt inr by linarith
    have c_tags: "\<forall>j < length (m_textureIDs s). tag (m_textureIDs s' ! j) = tag (m_textureIDs s ! j)"
    proof (intro allI impI)
      fix j assume "j < length (m_textureIDs s)"
      with tags have "tag (m_textureIDs s' ! j) = tag (m_textureIDs ?s1 ! j)" by (simp add: st)
      also have "\<dots> = tag (m_textureIDs s ! j)"
        using \<open>j < length (m_textureIDs s)\<close> by (cases "j = nat i") (simp_all add: st)
      finally show "tag (m_textureIDs s' ! j) = tag (m_textureIDs s ! j)" .
    qed
    have c_before: "\<forall>j < length (m_textureIDs s). j < nat i \<longrightarrow> m_textureIDs s' ! j = m_textureIDs s ! j"
    proof (intro allI impI)
      fix j assume j: "j < length (m_textureIDs s)" "j < nat i"
      with before i1 have "m_textureIDs s' ! j = m_textureIDs ?s1 ! j" by (simp add: st)
      with j show "m_textureIDs s' ! j = m_textureIDs s ! j" by (simp add: st)
    qed
    have c_ids: "\<forall>j. nat i \<le> j \<and> j < nat (m_loadedTextures s) \<longrightarrow>
                  ID (m_textureIDs s' ! j) = drv (?g + (j - nat i))"
    proof (intro allI impI)
      fix j assume j: "nat i \<le> j \<and> j < nat (m_loadedTextures s)"
      show "ID (m_textureIDs s' ! j) = drv (?g + (j - nat i))"
      proof (cases "j = nat i")
        case True
        with before i1 ni have "m_textureIDs s' ! j = m_textureIDs ?s1 ! j" by (simp add: st)
        with True ni show ?thesis by (simp add: st)
      next
        case False
        with j have "nat (i + 1) \<le> j \<and> j < nat (m_loadedTextures ?s1)" by (simp add: i1 st)
        with ids have "ID (m_textureIDs s' ! j) = drv (Suc ?g + (j - Suc (nat i)))"
          by (simp add: g1 i1)
        moreover from j False have "Suc ?g + (j - Suc (nat i)) = ?g + (j - nat i)" by linarith
        ultimately show ?thesis by (simp only:)
      qed
    qed
    have "nat (m_loadedTextures s) - nat i = Suc (nat (m_loadedTextures s) - Suc (nat i))"
      using nl by linarith
    then have c_log: "gl' = gl @ map (\<lambda>k. GenTextures (drv (?g + k))) [0 ..< nat (m_loadedTextures s) - nat i]"
      using log by (simp add: g1 i1 st st upt_conv_Cons map_Suc_upt [symmetric] del: upt_Suc)
    from unfold r n sh mat len c_tags c_before c_ids c_log show ?thesis
      by (simp add: st st)
  qed
qed

subsection \<open>Matrices applied to points\<close>

lemma mat4_vec4_mat4_mul:
  "mat4_vec4 (mat4_mul a b) v = mat4_vec4 a (mat4_vec4 b v)"
proof -
  obtain a0 a1 a2 a3 where a: "a = Mat4 a0 a1 a2 a3" by (cases a)
  obtain b0 b1 b2 b3 where b: "b = Mat4 b0 b1 b2 b3" by (cases b)
  obtain x y z w where v: "v = Vec4 x y z w" by (cases v)
  obtain a00 a01 a02 a03 where a0: "a0 = Vec4 a00 a01 a02 a03" by (cases a0)
  obtain a10 a11 a12 a13 where a1: "a1 = Vec4 a10 a11 a12 a13" by (cases a1)
  obtain a20 a21 a22 a23 where a2: "a2 = Vec4 a20 a21 a22 a23" by (cases a2)
  obtain a30 a31 a32 a33 where a3: "a3 = Vec4 a30 a31 a32 a33" by (cases a3)
  obtain b00 b01 b02 b03 where b0: "b0 = Vec4 b00 b01 b02 b03" by (cases b0)
  obtain b10 b11 b12 b13 where b1: "b1 = Vec4 b10 b11 b12 b13" by (cases b1)
  obtain b20 b21 b22 b23 where b2: "b2 = Vec4 b20 b21 b22 b23" by (cases b2)
  obtain b30 b31 b32 b33 where b3: "b3 = Vec4 b30 b31 b32 b33" by (cases b3)
  show ?thesis
    unfolding a b v a0 a1 a2 a3 b0 b1 b2 b3
    by (simp add: algebra_simps)
qed

lemma glm_scale_point: "mat4_vec4 (glm_scale sc) (point4 p) = point4 (scale_point sc p)"
  by (cases sc; cases p) (simp add: glm_scale_def mat4_identity_def)

lemma glm_translate_point: "mat4_vec4 (glm_translate t) (point4 p) = point4 (translate_point t p)"
  by (cases t; cases p) (simp add: glm_translate_def mat4_identity_def)

lemma glm_rotate_x_point:
  "mat4_vec4 (glm_rotate a (Vec3 1 0 0)) (point4 p) = point4 (rotate_x_point a p)"
  by (cases p) (simp add: glm_rotate_def mat4_identity_def Let_def algebra_simps)

lemma glm_rotate_y_point:
  "mat4_vec4 (glm_rotate a (Vec3 0 1 0)) (point4 p) = point4 (rotate_y_point a p)"
  by (cases p) (simp add: glm_rotate_def mat4_identity_def Let_def algebra_simps)

lemma glm_rotate_z_point:
  "mat4_vec4 (glm_rotate a (Vec3 0 0 1)) (point4 p) = point4 (rotate_z_point a p)"
  by (cases p) (simp add: glm_rotate_def mat4_identity_def Let_def algebra_simps)

subsection \<open>The uniforms pushed by the shading helpers\<close>

lemma FindTextureSlot_loop_total:
  "0 \<le> i \<Longrightarrow> m_loadedTextures s \<le> int (length (m_textureIDs s)) \<Longrightarrow>
   \<exists>r. FindTextureSlot_loop s tg i bf a = Inr r"
proof (induction s tg i bf a rule: FindTextureSlot_loop.induct)
  case (1 s tg index bFound textureSlot)
  show ?case
  proof (cases "index < m_loadedTextures s \<and> bFound = False")
    case False
    then show ?thesis by (subst FindTextureSlot_loop.simps) auto
  next
    case go: True
    with "1.prems" have inr: "0 \<le> index \<and> index < int (length (m_textureIDs s))" by simp
    show ?thesis
    proof (cases "tag (m_textureIDs s ! nat index) = tg")
      case True
      then show ?thesis
        by (subst FindTextureSlot_loop.simps) (use go inr in simp)
    next
      case False
      from "1.IH"(2) [OF go inr False] "1.prems"
      obtain r where "FindTextureSlot_loop s tg (index + 1) bFound textureSlot = Inr r" by auto
      then show ?thesis
        by (subst FindTextureSlot_loop.simps) (use go inr False in simp)
    qed
  qed
qed

lemma FindTextureSlot_total:
  "registry_ok s \<Longrightarrow> \<exists>r. FindTextureSlot s tg = Inr r"
  unfolding FindTextureSlot_def
  by (rule FindTextureSlot_loop_total) (simp_all add: registry_ok_def)

lemma SetShaderColor_flag:
  "m_pShaderManager s = Some sh \<Longrightarrow>
   SetShaderColor r g b a s =
     s\<lparr> m_pShaderManager := Some (sh @ [(''bUseTexture'', UInt 0), (''objectColor'', UVec4 (Vec4 r g b a))]) \<rparr>"
  by (simp add: SetShaderColor_def setVec4Value_def setIntValue_def int_of_bool_def
      g_UseTextureName_def g_ColorValueName_def)

lemma SetShaderTexture_flag:
  "m_pShaderManager s = Some sh \<Longrightarrow> FindTextureSlot s tg = Inr slot \<Longrightarrow>
   SetShaderTexture tg s =
     Inr (s\<lparr> m_pShaderManager := Some (sh @ [(''bUseTexture'', UInt 1), (''objectTexture'', USampler2D slot)]) \<rparr>)"
  by (simp add: SetShaderTexture_def setSampler2DValue_def setIntValue_def int_of_bool_def
      g_UseTextureName_def g_TextureValueName_def)

lemma do_call_flag:
  assumes sh: "m_pShaderManager s = Some sh" and ok: "registry_ok s"
  shows "\<exists>s' sh'. do_call c s = Inr s' \<and> m_pShaderManager s' = Some sh' \<and> registry_ok s'
           \<and> last_request (c # cs) flag = last_request cs
                (case c of CallSetShaderColor r g b a \<Rightarrow> Some (UInt 0)
                         | CallSetShaderTexture tg \<Rightarrow> Some (UInt 1)
                         | _ \<Rightarrow> flag)
           \<and> use_texture_flag s' =
                (case c of CallSetShaderColor r g b a \<Rightarrow> Some (UInt 0)
                         | CallSetShaderTexture tg \<Rightarrow> Some (UInt 1)
                         | _ \<Rightarrow> use_texture_flag s)"
proof (cases c)
  case (CallSetTransformations sc rx ry rz pos)
  with sh ok show ?thesis
    by (simp add: SetTransformations_def Let_def setMat4Value_def g_ModelName_def
        use_texture_flag_def uniform_of_def g_UseTextureName_def registry_ok_def)
next
  case (CallSetShaderColor r g b a)
  with sh ok show ?thesis
    by (simp add: SetShaderColor_flag use_texture_flag_def uniform_of_def
        g_UseTextureName_def registry_ok_def)
next
  case (CallSetShaderTexture tg)
  from FindTextureSlot_total [OF ok, of tg] obtain slot where "FindTextureSlot s tg = Inr slot" ..
  with CallSetShaderTexture sh ok show ?thesis
    by (simp add: SetShaderTexture_flag use_texture_flag_def uniform_of_def
        g_UseTextureName_def registry_ok_def)
next
  case (CallSetTextureUVScale u v)
  with sh ok show ?thesis
    by (simp add: SetTextureUVScale_def setVec2Value_def
        use_texture_flag_def uniform_of_def g_UseTextureName_def registry_ok_def)
qed

lemma do_calls_flag:
  "m_pShaderManager s = Some sh \<Longrightarrow> registry_ok s \<Longrightarrow>
   \<exists>s'. do_calls cs s = Inr s' \<and> use_texture_flag s' = last_request cs (use_texture_flag s)"
proof (induction cs arbitrary: s sh)
  case Nil
  then show ?case by simp
next
  case (Cons c cs)
  from do_call_flag [OF Cons.prems, of c cs "use_texture_flag s"]
  obtain s1 sh1 where c: "do_call c s = Inr s1" and sh1: "m_pShaderManager s1 = Some sh1"
    and ok1: "registry_ok s1"
    and lr: "last_request (c # cs) (use_texture_flag s) = last_request cs (use_texture_flag s1)"
    by (cases c) auto
  from Cons.IH [OF sh1 ok1] c lr show ?case by auto
qed

subsection \<open>A null shader manager\<close>

text \<open>
  Claim C9. When the shader manager pointer held by the scene manager is null,
  \<open>SetTransformations\<close>, \<open>SetShaderColor\<close>, \<open>SetShaderTexture\<close> and
  \<open>SetTextureUVScale\<close> push no uniform value and return normally, whatever their
  arguments: each leaves the whole state as it was, and \<open>SetShaderTexture\<close>, the one of
  the four that has an error branch in the model, returns without an error.
\<close>

theorem null_sink_pushes_nothing:
  assumes "m_pShaderManager s = None"
  shows "SetTransformations scaleXYZ rx ry rz positionXYZ s = s
       \<and> SetShaderColor r g b a s = s
       \<and> SetShaderTexture textureTag s = Inr s
       \<and> SetTextureUVScale u v s = s"
  using assms
  by (simp add: SetTransformations_def SetShaderColor_def SetShaderTexture_def
      SetTextureUVScale_def Let_def)

theorem null_sink_pushes_nothing_witness:
  "m_pShaderManager (new_SceneManager None) = None
   \<and> SetTransformations (Vec3 2 1 1) 0 0 90 (Vec3 1 0 0) (new_SceneManager None)
       = new_SceneManager None
   \<and> SetShaderColor 1 0 0 1 (new_SceneManager None) = new_SceneManager None
   \<and> SetShaderTexture ''floor'' (new_SceneManager None) = Inr (new_SceneManager None)
   \<and> SetTextureUVScale 2 3 (new_SceneManager None) = new_SceneManager None"
proof -
  have h: "m_pShaderManager (new_SceneManager None) = None"
    by (simp add: new_SceneManager_def)
  show ?thesis
    using h null_sink_pushes_nothing
            [OF h, of "Vec3 2 1 1" 0 0 90 "Vec3 1 0 0" 1 0 0 1 "''floor''" 2 3]
    by simp
qed

subsection \<open>A load that fails\<close>

text \<open>
  Claim C4. For every file path and tag, if the image cannot be decoded or its channel
  count is neither 3 nor 4, \<open>CreateGLTexture\<close> returns failure and leaves the texture
  registry as it was: no entry is written and the counter of loaded textures is not
  incremented (the scene manager's state is unchanged; only the GL context may have
  received calls).
\<close>

theorem CreateGLTexture_failure_keeps_registry:
  assumes "stbi_load filename = None
         \<or> (\<exists>img. stbi_load filename = Some img \<and> colorChannels img \<noteq> 3 \<and> colorChannels img \<noteq> 4)"
  shows "\<exists>gl'. CreateGLTexture stbi_load drv filename tg (gl, s) = Inr (False, gl', s)"
  using assms
  by (auto simp: CreateGLTexture_def Let_def glGenTextures_def split: option.splits)

theorem CreateGLTexture_failure_keeps_registry_witness:
  "(\<lambda>f. Some \<lparr> width = 4, height = 4, colorChannels = 1 \<rparr>) ''textures/gray.png'' \<noteq> None
   \<and> (\<exists>gl'. CreateGLTexture (\<lambda>f. Some \<lparr> width = 4, height = 4, colorChannels = 1 \<rparr>) (\<lambda>k. 1)
               ''textures/gray.png'' ''gray'' ([], new_SceneManager None)
            = Inr (False, gl', new_SceneManager None))
   \<and> (\<exists>gl'. CreateGLTexture (\<lambda>f. None) (\<lambda>k. 1)
               ''textures/missing.png'' ''missing'' ([], new_SceneManager None)
            = Inr (False, gl', new_SceneManager None))"
proof -
  have a: "(\<lambda>f::string. Some \<lparr> width = 4, height = 4, colorChannels = 1 \<rparr>) ''textures/gray.png'' = None
         \<or> (\<exists>img. (\<lambda>f::string. Some \<lparr> width = 4, height = 4, colorChannels = 1 \<rparr>) ''textures/gray.png''
                     = Some img \<and> colorChannels img \<noteq> 3 \<and> colorChannels img \<noteq> 4)"
    by simp
  have b: "(\<lambda>f::string. None :: image option) ''textures/missing.png'' = None
         \<or> (\<exists>img. (\<lambda>f::string. None) ''textures/missing.png''
                     = Some img \<and> colorChannels img \<noteq> 3 \<and> colorChannels img \<noteq> 4)"
    by simp
  show ?thesis
    using CreateGLTexture_failure_keeps_registry
            [OF a, where drv = "\<lambda>k. 1" and tg = "''gray''" and gl = "[]" and s = "new_SceneManager None"]
          CreateGLTexture_failure_keeps_registry
            [OF b, where drv = "\<lambda>k. 1" and tg = "''missing''" and gl = "[]" and s = "new_SceneManager None"]
    by simp
qed

subsection \<open>Slots follow the order of registration\<close>

text \<open>
  Claim C3. After any sequence of loads on an empty registry, the registered tags are the
  tags of the successful loads in their order, and \<open>FindTextureSlot\<close> returns, for a
  tag registered by a successful load, the 0-based position of the first successful load
  with that tag (the first match of the scan from the front), and the sentinel -1 for a
  tag that no successful load registered.
\<close>

theorem FindTextureSlot_registration_order:
  assumes "load_all stbi_load drv reqs (Inr (gl, new_SceneManager p)) = Inr (gl', s')"
  shows "registered_tags s' = successful_tags stbi_load reqs
       \<and> (tg \<notin> set (successful_tags stbi_load reqs) \<longrightarrow> FindTextureSlot s' tg = Inr (- 1))
       \<and> (\<forall>k < length (successful_tags stbi_load reqs).
            successful_tags stbi_load reqs ! k = tg
            \<and> (\<forall>j < k. successful_tags stbi_load reqs ! j \<noteq> tg)
            \<longrightarrow> FindTextureSlot s' tg = Inr (int k))"
proof -
  from load_all_Inr_fits [OF registry_ok_new assms]
  have ok: "registry_ok s'" and tags: "registered_tags s' = successful_tags stbi_load reqs"
    by simp_all
  show ?thesis
  proof (intro conjI impI allI)
    show "registered_tags s' = successful_tags stbi_load reqs" by (rule tags)
  next
    assume "tg \<notin> set (successful_tags stbi_load reqs)"
    with tags show "FindTextureSlot s' tg = Inr (- 1)"
      by (intro FindTextureSlot_miss [OF ok]) simp
  next
    fix k
    assume "k < length (successful_tags stbi_load reqs)"
      and "successful_tags stbi_load reqs ! k = tg
            \<and> (\<forall>j < k. successful_tags stbi_load reqs ! j \<noteq> tg)"
    with tags show "FindTextureSlot s' tg = Inr (int k)"
      by (intro FindTextureSlot_hit [OF ok]) simp_all
  qed
qed

theorem FindTextureSlot_registration_order_witness:
  "successful_tags all_rgb [(''a.jpg'', ''a''), (''b.jpg'', ''b'')] = [''a'', ''b'']
   \<and> registered_tags ab_scene = [''a'', ''b'']
   \<and> FindTextureSlot ab_scene ''b'' = Inr 1
   \<and> FindTextureSlot ab_scene ''c'' = Inr (- 1)"
proof -
  have st: "successful_tags all_rgb [(''a.jpg'', ''a''), (''b.jpg'', ''b'')] = [''a'', ''b'']"
    by (simp add: decodes_def all_rgb_def rgb_image_def)
  have b: "(1::nat) < length [''a'', ''b'']" "[''a'', ''b''] ! 1 = ''b'' \<and> (\<forall>j<1. [''a'', ''b''] ! j \<noteq> ''b'')"
    and c: "''c'' \<notin> set [''a'', ''b'']"
    by simp_all
  from FindTextureSlot_registration_order [OF ab_scene_reached, of "''b''"] st b
  have "registered_tags ab_scene = [''a'', ''b'']" "FindTextureSlot ab_scene ''b'' = Inr 1"
    by auto
  moreover from FindTextureSlot_registration_order [OF ab_scene_reached, of "''c''"] st c
  have "FindTextureSlot ab_scene ''c'' = Inr (- 1)" by simp
  ultimately show ?thesis using st by simp
qed

text \<open>
  Claim C6, as amended. The claim says that the registry keeps its tags unique and never
  holds more than 16 textures. The code checks neither. What holds: on an empty registry
  a sequence of loads with at most 16 successes ends with the counter equal to the number
  of successes (at most 16) and with the tag of the i-th successful load in slot i, so
  slots are assigned in load order, 0-based and contiguous; with more than 16 successes
  the sequence writes past the array (\<open>OutOfBounds\<close>); and \<open>LoadSceneTextures\<close>, with
  its fifteen requests, always ends in the first way.
\<close>

theorem registry_slots_in_load_order:
  "(length (successful_tags stbi_load reqs) \<le> MAX_TEXTURES \<longrightarrow>
      (\<exists>gl' s'. load_all stbi_load drv reqs (Inr (gl, new_SceneManager p)) = Inr (gl', s')
          \<and> m_loadedTextures s' = int (length (successful_tags stbi_load reqs))
          \<and> m_loadedTextures s' \<le> 16
          \<and> registered_tags s' = successful_tags stbi_load reqs))
   \<and> (length (successful_tags stbi_load reqs) > MAX_TEXTURES \<longrightarrow>
        load_all stbi_load drv reqs (Inr (gl, new_SceneManager p)) = Inl OutOfBounds)
   \<and> (\<exists>gl' s'. LoadSceneTextures stbi_load drv (gl, new_SceneManager p) = Inr (gl', s')
          \<and> m_loadedTextures s' = int (length (successful_tags stbi_load scene_textures))
          \<and> m_loadedTextures s' \<le> 16
          \<and> registered_tags s' = successful_tags stbi_load scene_textures)"
proof (intro conjI impI)
  assume fits: "length (successful_tags stbi_load reqs) \<le> MAX_TEXTURES"
  then have "m_loadedTextures (new_SceneManager p) + int (length (successful_tags stbi_load reqs))
      \<le> int (length (m_textureIDs (new_SceneManager p)))"
    by simp
  from load_all_fits [OF registry_ok_new this, of drv gl] fits
  show "\<exists>gl' s'. load_all stbi_load drv reqs (Inr (gl, new_SceneManager p)) = Inr (gl', s')
          \<and> m_loadedTextures s' = int (length (successful_tags stbi_load reqs))
          \<and> m_loadedTextures s' \<le> 16
          \<and> registered_tags s' = successful_tags stbi_load reqs"
    by (auto simp: MAX_TEXTURES_def)
next
  assume "length (successful_tags stbi_load reqs) > MAX_TEXTURES"
  then have "m_loadedTextures (new_SceneManager p) + int (length (successful_tags stbi_load reqs))
      > int (length (m_textureIDs (new_SceneManager p)))"
    by simp
  from load_all_overflow [OF registry_ok_new this]
  show "load_all stbi_load drv reqs (Inr (gl, new_SceneManager p)) = Inl OutOfBounds" .
next
  have "length (successful_tags stbi_load scene_textures) \<le> 15"
    using length_successful_tags [of stbi_load scene_textures] length_scene_textures by simp
  with LoadSceneTextures_result [of stbi_load drv gl p]
  show "\<exists>gl' s'. LoadSceneTextures stbi_load drv (gl, new_SceneManager p) = Inr (gl', s')
          \<and> m_loadedTextures s' = int (length (successful_tags stbi_load scene_textures))
          \<and> m_loadedTextures s' \<le> 16
          \<and> registered_tags s' = successful_tags stbi_load scene_textures"
    by auto
qed

theorem registry_slots_in_load_order_witness:
  "length (successful_tags all_rgb [(''a.jpg'', ''a''), (''b.jpg'', ''b'')]) = 2
   \<and> (\<exists>gl' s'. load_all all_rgb seq_names [(''a.jpg'', ''a''), (''b.jpg'', ''b'')]
                   (Inr ([], new_SceneManager None)) = Inr (gl', s')
          \<and> m_loadedTextures s' = 2 \<and> registered_tags s' = [''a'', ''b''])
   \<and> length (successful_tags all_rgb (replicate 17 (''t.jpg'', ''t''))) = 17
   \<and> load_all all_rgb seq_names (replicate 17 (''t.jpg'', ''t'')) (Inr ([], new_SceneManager None))
       = Inl OutOfBounds"
proof -
  have a: "successful_tags all_rgb [(''a.jpg'', ''a''), (''b.jpg'', ''b'')] = [''a'', ''b'']"
    unfolding successful_tags_all_rgb by simp
  have b: "length (successful_tags all_rgb (replicate 17 (''t.jpg'', ''t''))) = 17"
    unfolding successful_tags_all_rgb by simp
  have fits: "length (successful_tags all_rgb [(''a.jpg'', ''a''), (''b.jpg'', ''b'')]) \<le> MAX_TEXTURES"
    unfolding a by (simp add: MAX_TEXTURES_def)
  have over: "length (successful_tags all_rgb (replicate 17 (''t.jpg'', ''t''))) > MAX_TEXTURES"
    unfolding b by (simp add: MAX_TEXTURES_def)
  from registry_slots_in_load_order
         [of all_rgb "[(''a.jpg'', ''a''), (''b.jpg'', ''b'')]" seq_names "[]" None,
          THEN conjunct1, rule_format, OF fits]
  have one: "\<exists>gl' s'. load_all all_rgb seq_names [(''a.jpg'', ''a''), (''b.jpg'', ''b'')]
                   (Inr ([], new_SceneManager None)) = Inr (gl', s')
          \<and> m_loadedTextures s' = 2 \<and> registered_tags s' = [''a'', ''b'']"
    unfolding a by auto
  from registry_slots_in_load_order
         [of all_rgb "replicate 17 (''t.jpg'', ''t'')" seq_names "[]" None,
          THEN conjunct2, THEN conjunct1, rule_format, OF over]
  have two: "load_all all_rgb seq_names (replicate 17 (''t.jpg'', ''t'')) (Inr ([], new_SceneManager None))
       = Inl OutOfBounds" .
  have a': "length (successful_tags all_rgb [(''a.jpg'', ''a''), (''b.jpg'', ''b'')]) = 2"
    unfolding a by simp
  from a' one b two show ?thesis by (intro conjI)
qed

text \<open>
  Claim C6, as stated, fails: when every file decodes, \<open>LoadSceneTextures\<close> registers
  the tag \<open>island top\<close> twice (slots 0 and 5), so the tags are not unique keys; and
  seventeen successful loads run past the sixteen cells of the array.
\<close>

theorem LoadSceneTextures_duplicate_tag:
  "map_option registered_tags
     (scene_of (LoadSceneTextures all_rgb seq_names ([], new_SceneManager None)))
     = Some [''island top'', ''island stand'', ''stand base'', ''top torus'', ''torus'',
             ''island top'', ''bottom torus'', ''floor'', ''candle snuffer'', ''pottery'',
             ''fruit'', ''paper'', ''wax'', ''dark wood'', ''steel'']
   \<and> \<not> distinct [''island top'', ''island stand'', ''stand base'', ''top torus'', ''torus'',
             ''island top'', ''bottom torus'', ''floor'', ''candle snuffer'', ''pottery'',
             ''fruit'', ''paper'', ''wax'', ''dark wood'', ''steel'']
   \<and> load_all all_rgb seq_names (replicate 17 (''t.jpg'', ''t'')) (Inr ([], new_SceneManager None))
       = Inl OutOfBounds"
proof -
  from LoadSceneTextures_result [of all_rgb seq_names "[]" None]
  obtain gl' s' where "LoadSceneTextures all_rgb seq_names ([], new_SceneManager None) = Inr (gl', s')"
    and "registered_tags s' = successful_tags all_rgb scene_textures"
    by blast
  then have "map_option registered_tags
     (scene_of (LoadSceneTextures all_rgb seq_names ([], new_SceneManager None)))
     = Some (map snd scene_textures)"
    unfolding successful_tags_all_rgb by (simp add: scene_of_def)
  moreover have "load_all all_rgb seq_names (replicate 17 (''t.jpg'', ''t'')) (Inr ([], new_SceneManager None))
       = Inl OutOfBounds"
    unfolding successful_tags_all_rgb
    by (rule load_all_overflow) (simp_all add: successful_tags_all_rgb MAX_TEXTURES_def)
  ultimately show ?thesis by (simp add: scene_textures_def)
qed

subsection \<open>The two lookups agree\<close>

text \<open>
  Claim C10, as amended. \<open>FindTextureID\<close> and \<open>FindTextureSlot\<close> make the same scan:
  they fail together; when \<open>FindTextureSlot\<close> returns -1 so does \<open>FindTextureID\<close>; and
  when \<open>FindTextureSlot\<close> returns an index, \<open>FindTextureID\<close> returns the \<open>ID\<close> stored
  at that index, converted from \<^verbatim>\<open>GLuint\<close> to \<^verbatim>\<open>int\<close>. The converse, that
  \<open>FindTextureID\<close> returns -1 only when \<open>FindTextureSlot\<close> does, holds when no
  registered entry has the ID \<^verbatim>\<open>0xFFFFFFFF\<close>.
\<close>

theorem FindTextureID_follows_FindTextureSlot:
  "FindTextureID s tg =
     (case FindTextureSlot s tg of
        Inl e \<Rightarrow> Inl e
      | Inr r \<Rightarrow> if r = - 1 then Inr (- 1) else Inr (sint (ID (m_textureIDs s ! nat r))))
   \<and> ((\<forall>e \<in> set (registered s). ID e \<noteq> - 1) \<longrightarrow>
        (FindTextureID s tg = Inr (- 1) \<longleftrightarrow> FindTextureSlot s tg = Inr (- 1)))"
proof (intro conjI impI)
  show eq: "FindTextureID s tg =
     (case FindTextureSlot s tg of
        Inl e \<Rightarrow> Inl e
      | Inr r \<Rightarrow> if r = - 1 then Inr (- 1) else Inr (sint (ID (m_textureIDs s ! nat r))))"
    unfolding FindTextureID_def FindTextureSlot_def
    by (rule loops_agree) simp_all
  assume ids: "\<forall>e \<in> set (registered s). ID e \<noteq> - 1"
  show "FindTextureID s tg = Inr (- 1) \<longleftrightarrow> FindTextureSlot s tg = Inr (- 1)"
  proof (cases "FindTextureSlot s tg")
    case (Inl e)
    with eq show ?thesis by simp
  next
    case (Inr r)
    show ?thesis
    proof (cases "r = - 1")
      case True
      with Inr eq show ?thesis by simp
    next
      case False
      from Inr FindTextureSlot_loop_inside [of s tg 0 False "- 1" r] False
      have r: "0 \<le> r" "r < int (length (m_textureIDs s))" "r < m_loadedTextures s"
        by (simp_all add: FindTextureSlot_def)
      then have "nat r < length (registered s)" by (simp add: registered_def)
      then have "registered s ! nat r \<in> set (registered s)" by (rule nth_mem)
      moreover have "registered s ! nat r = m_textureIDs s ! nat r"
        using r by (simp add: registered_def)
      ultimately have "ID (m_textureIDs s ! nat r) \<noteq> - 1" using ids by auto
      then have "sint (ID (m_textureIDs s ! nat r)) \<noteq> - 1" by (simp add: sint_eq_minus1)
      with Inr eq False show ?thesis by simp
    qed
  qed
qed

theorem FindTextureID_follows_FindTextureSlot_witness:
  "map ID (registered ab_scene) = [1, 2]
   \<and> FindTextureSlot ab_scene ''b'' = Inr 1
   \<and> FindTextureID ab_scene ''b'' = Inr 2
   \<and> FindTextureSlot ab_scene ''c'' = Inr (- 1)
   \<and> FindTextureID ab_scene ''c'' = Inr (- 1)"
proof -
  have r: "registered ab_scene = [\<lparr> tag = ''a'', ID = 1 \<rparr>, \<lparr> tag = ''b'', ID = 2 \<rparr>]"
    by (simp add: registered_def ab_scene_def new_SceneManager_def MAX_TEXTURES_def eval_nat_numeral)
  then have h: "\<forall>e \<in> set (registered ab_scene). ID e \<noteq> - 1" by simp
  have cell: "m_textureIDs ab_scene ! nat 1 = \<lparr> tag = ''b'', ID = 2 \<rparr>"
    by (simp add: ab_scene_def new_SceneManager_def MAX_TEXTURES_def)
  have sb: "FindTextureSlot ab_scene ''b'' = Inr 1" and sc: "FindTextureSlot ab_scene ''c'' = Inr (- 1)"
    by code_simp+
  from FindTextureID_follows_FindTextureSlot [of ab_scene "''b''"] sb cell
  have "FindTextureID ab_scene ''b'' = Inr 2" by simp
  moreover from FindTextureID_follows_FindTextureSlot [of ab_scene "''c''"] h sc
  have "FindTextureID ab_scene ''c'' = Inr (- 1)" by simp
  ultimately show ?thesis using r sb sc by simp
qed

text \<open>
  Claim C10, as stated, fails: an entry whose ID is \<^verbatim>\<open>0xFFFFFFFF\<close> (the registry
  after one load when the driver generates that name) is found by both lookups, and
  \<open>FindTextureID\<close> returns -1 where \<open>FindTextureSlot\<close> returns 0.
\<close>

theorem FindTextureID_sentinel_collision:
  "scene_of (load_all all_rgb max_name [(''a.jpg'', ''a'')] (Inr ([], new_SceneManager None)))
     = Some max_name_scene
   \<and> FindTextureSlot max_name_scene ''a'' = Inr 0
   \<and> FindTextureID max_name_scene ''a'' = Inr (- 1)"
proof -
  have len: "length (m_textureIDs max_name_scene) = 16" "m_loadedTextures max_name_scene = 1"
    and cell: "m_textureIDs max_name_scene ! 0 = \<lparr> tag = ''a'', ID = - 1 \<rparr>"
    by (simp_all add: max_name_scene_def new_SceneManager_def MAX_TEXTURES_def)
  have a: "FindTextureSlot max_name_scene ''a'' = Inr 0"
    unfolding FindTextureSlot_def
    by (subst FindTextureSlot_loop.simps) (simp add: len cell)
  have b: "FindTextureID max_name_scene ''a'' = Inr (- 1)"
    unfolding FindTextureID_def
    by (subst FindTextureID_loop.simps) (simp add: len cell)
  from a b max_name_scene_reached show ?thesis by simp
qed

subsection \<open>Teardown\<close>

text \<open>
  Claim C7. For every registered entry, \<open>DestroyGLTextures\<close> issues one
  generate-new-name call and stores the generated name in that entry's \<open>ID\<close> field;
  it issues no call that releases a name, and it leaves the counter of loaded textures
  (and the tags) as they were, so no registered slot is released at teardown.
\<close>

theorem DestroyGLTextures_regenerates:
  assumes "registry_ok s"
  shows "\<exists>gl' s'. DestroyGLTextures drv (gl, s) = Inr (gl', s')
     \<and> m_loadedTextures s' = m_loadedTextures s
     \<and> registered_tags s' = registered_tags s
     \<and> map ID (registered s')
         = map (\<lambda>k. drv (length (filter is_GenTextures gl) + k)) [0 ..< nat (m_loadedTextures s)]
     \<and> gl' = gl @ map GenTextures (map ID (registered s'))
     \<and> filter is_DeleteTextures gl' = filter is_DeleteTextures gl"
proof -
  let ?n = "nat (m_loadedTextures s)"
  let ?g = "length (filter is_GenTextures gl)"
  from assms have p: "0 \<le> (0::int)" "0 \<le> m_loadedTextures (snd (gl, s))"
    "m_loadedTextures (snd (gl, s)) \<le> int (length (m_textureIDs (snd (gl, s))))"
    by (simp_all add: registry_ok_def)
  from DestroyGLTextures_loop_inv [OF p, of drv]
  obtain gl' s' where r: "DestroyGLTextures_loop drv 0 (gl, s) = Inr (gl', s')"
    and n: "m_loadedTextures s' = m_loadedTextures s"
    and len: "length (m_textureIDs s') = length (m_textureIDs s)"
    and tags: "\<forall>j < length (m_textureIDs s). tag (m_textureIDs s' ! j) = tag (m_textureIDs s ! j)"
    and ids: "\<forall>j. j < ?n \<longrightarrow> ID (m_textureIDs s' ! j) = drv (?g + j)"
    and log: "gl' = gl @ map (\<lambda>k. GenTextures (drv (?g + k))) [0 ..< ?n]"
    by auto
  have nlen: "?n \<le> length (m_textureIDs s)" using assms unfolding registry_ok_def by linarith
  have a: "registered_tags s' = registered_tags s"
    unfolding registered_tags_def registered_def n
    using nlen len tags by (intro nth_equalityI) simp_all
  have b: "map ID (registered s') = map (\<lambda>k. drv (?g + k)) [0 ..< ?n]"
    unfolding registered_def n
    using nlen len ids by (intro nth_equalityI) simp_all
  have c: "gl' = gl @ map GenTextures (map ID (registered s'))"
    unfolding b log by (simp add: comp_def)
  have d: "filter is_DeleteTextures gl' = filter is_DeleteTextures gl"
    unfolding log by (simp add: filter_empty_conv)
  from r n a b c d show ?thesis
    unfolding DestroyGLTextures_def by blast
qed

theorem DestroyGLTextures_regenerates_witness:
  "m_loadedTextures ab_scene = 2
   \<and> (\<exists>gl' s'. DestroyGLTextures seq_names ([GenTextures 1, GenTextures 2], ab_scene) = Inr (gl', s')
        \<and> m_loadedTextures s' = 2
        \<and> registered_tags s' = [''a'', ''b'']
        \<and> map ID (registered s') = [3, 4]
        \<and> gl' = [GenTextures 1, GenTextures 2, GenTextures 3, GenTextures 4])"
proof -
  have ok: "registry_ok ab_scene"
    by (simp add: registry_ok_def ab_scene_def new_SceneManager_def MAX_TEXTURES_def)
  have n: "m_loadedTextures ab_scene = 2" by (simp add: ab_scene_def)
  have t: "registered_tags ab_scene = [''a'', ''b'']"
    by (simp add: registered_tags_def registered_def ab_scene_def new_SceneManager_def
        MAX_TEXTURES_def eval_nat_numeral)
  have u: "[0 ..< 2] = [0, Suc 0]" by (simp add: eval_nat_numeral)
  from DestroyGLTextures_regenerates [OF ok, of seq_names "[GenTextures 1, GenTextures 2]"]
  obtain gl' s' where r: "DestroyGLTextures seq_names ([GenTextures 1, GenTextures 2], ab_scene) = Inr (gl', s')"
    and 1: "m_loadedTextures s' = m_loadedTextures ab_scene"
    and 2: "registered_tags s' = registered_tags ab_scene"
    and 3: "map ID (registered s')
         = map (\<lambda>k. seq_names (length (filter is_GenTextures [GenTextures 1, GenTextures 2]) + k))
             [0 ..< nat (m_loadedTextures ab_scene)]"
    and 4: "gl' = [GenTextures 1, GenTextures 2] @ map GenTextures (map ID (registered s'))"
    by blast
  from 3 have 5: "map ID (registered s') = [3, 4]"
    by (simp add: n u seq_names_def)
  from r 1 2 4 5 n t show ?thesis by simp
qed

subsection \<open>The model matrix\<close>

text \<open>
  Claim C1, as amended. For every scale vector, per-axis rotation angles in degrees and
  translation vector, \<open>SetTransformations\<close> (with a shader manager to push to) pushes
  exactly one value, under the name \<open>model\<close>: the matrix
  Translation * RotationX * RotationY * RotationZ * Scale, the angles converted from
  degrees to radians. Applied to a point, that matrix scales first, then rotates about Z,
  then about Y, then about X, then translates: the factor written last acts first. The
  function returns nothing but the updated state.
\<close>

theorem SetTransformations_pushes_model_matrix:
  assumes "m_pShaderManager s = Some sh"
  shows "SetTransformations scaleXYZ rx ry rz positionXYZ s =
           s\<lparr> m_pShaderManager := Some (sh @ [(''model'', UMat4
              (mat4_mul (mat4_mul (mat4_mul (mat4_mul
                 (glm_translate positionXYZ)
                 (glm_rotate (glm_radians rx) (Vec3 1 0 0)))
                 (glm_rotate (glm_radians ry) (Vec3 0 1 0)))
                 (glm_rotate (glm_radians rz) (Vec3 0 0 1)))
                 (glm_scale scaleXYZ)))]) \<rparr>
       \<and> mat4_vec4
             (mat4_mul (mat4_mul (mat4_mul (mat4_mul
                 (glm_translate positionXYZ)
                 (glm_rotate (glm_radians rx) (Vec3 1 0 0)))
                 (glm_rotate (glm_radians ry) (Vec3 0 1 0)))
                 (glm_rotate (glm_radians rz) (Vec3 0 0 1)))
                 (glm_scale scaleXYZ))
             (point4 p)
           = point4 (translate_point positionXYZ
               (rotate_x_point (rx * pi / 180)
                 (rotate_y_point (ry * pi / 180)
                   (rotate_z_point (rz * pi / 180)
                     (scale_point scaleXYZ p)))))"
proof
  show "SetTransformations scaleXYZ rx ry rz positionXYZ s =
           s\<lparr> m_pShaderManager := Some (sh @ [(''model'', UMat4
              (mat4_mul (mat4_mul (mat4_mul (mat4_mul
                 (glm_translate positionXYZ)
                 (glm_rotate (glm_radians rx) (Vec3 1 0 0)))
                 (glm_rotate (glm_radians ry) (Vec3 0 1 0)))
                 (glm_rotate (glm_radians rz) (Vec3 0 0 1)))
                 (glm_scale scaleXYZ)))]) \<rparr>"
    using assms by (simp add: SetTransformations_def Let_def setMat4Value_def g_ModelName_def)
next
  show "mat4_vec4
             (mat4_mul (mat4_mul (mat4_mul (mat4_mul
                 (glm_translate positionXYZ)
                 (glm_rotate (glm_radians rx) (Vec3 1 0 0)))
                 (glm_rotate (glm_radians ry) (Vec3 0 1 0)))
                 (glm_rotate (glm_radians rz) (Vec3 0 0 1)))
                 (glm_scale scaleXYZ))
             (point4 p)
           = point4 (translate_point positionXYZ
               (rotate_x_point (rx * pi / 180)
                 (rotate_y_point (ry * pi / 180)
                   (rotate_z_point (rz * pi / 180)
                     (scale_point scaleXYZ p)))))"
    by (simp only: mat4_vec4_mat4_mul glm_scale_point glm_rotate_z_point glm_rotate_y_point
        glm_rotate_x_point glm_translate_point glm_radians_def)
qed

theorem SetTransformations_pushes_model_matrix_witness:
  "m_pShaderManager (new_SceneManager (Some [])) = Some []
   \<and> uniform_of (the (m_pShaderManager
        (SetTransformations (Vec3 2 1 1) 90 0 90 (Vec3 1 0 0) (new_SceneManager (Some [])))))
        ''model''
      = Some (UMat4 (mat4_mul (mat4_mul (mat4_mul (mat4_mul
                 (glm_translate (Vec3 1 0 0))
                 (glm_rotate (glm_radians 90) (Vec3 1 0 0)))
                 (glm_rotate (glm_radians 0) (Vec3 0 1 0)))
                 (glm_rotate (glm_radians 90) (Vec3 0 0 1)))
                 (glm_scale (Vec3 2 1 1))))
   \<and> mat4_vec4 (mat4_mul (mat4_mul (mat4_mul (mat4_mul
                 (glm_translate (Vec3 1 0 0))
                 (glm_rotate (glm_radians 90) (Vec3 1 0 0)))
                 (glm_rotate (glm_radians 0) (Vec3 0 1 0)))
                 (glm_rotate (glm_radians 90) (Vec3 0 0 1)))
                 (glm_scale (Vec3 2 1 1)))
        (Vec4 1 0 0 1)
      = Vec4 1 0 2 1"
proof -
  have h: "m_pShaderManager (new_SceneManager (Some [])) = Some []"
    by (simp add: new_SceneManager_def)
  from SetTransformations_pushes_model_matrix
         [OF h, of "Vec3 2 1 1" 90 0 90 "Vec3 1 0 0" "Vec3 1 0 0"]
  show ?thesis using h by (simp add: uniform_of_def)
qed

text \<open>
  Claim C1, as stated, fails in its reading of the product: it has the rotation about X
  act before the one about Y and the one about Z. With the angles 90, 0 and 90 degrees
  about X, Y and Z, unit scale and no translation, the pushed matrix sends the point
  (1, 0, 0) to (0, 0, 1), while scaling, rotating about X, then Y, then Z and translating
  sends it to (0, 1, 0).
\<close>

theorem SetTransformations_rotation_order:
  "uniform_of (the (m_pShaderManager
        (SetTransformations (Vec3 1 1 1) 90 0 90 (Vec3 0 0 0) (new_SceneManager (Some [])))))
        ''model''
      = Some (UMat4 (mat4_mul (mat4_mul (mat4_mul (mat4_mul
                 (glm_translate (Vec3 0 0 0))
                 (glm_rotate (glm_radians 90) (Vec3 1 0 0)))
                 (glm_rotate (glm_radians 0) (Vec3 0 1 0)))
                 (glm_rotate (glm_radians 90) (Vec3 0 0 1)))
                 (glm_scale (Vec3 1 1 1))))
   \<and> mat4_vec4 (mat4_mul (mat4_mul (mat4_mul (mat4_mul
                 (glm_translate (Vec3 0 0 0))
                 (glm_rotate (glm_radians 90) (Vec3 1 0 0)))
                 (glm_rotate (glm_radians 0) (Vec3 0 1 0)))
                 (glm_rotate (glm_radians 90) (Vec3 0 0 1)))
                 (glm_scale (Vec3 1 1 1)))
        (point4 (Vec3 1 0 0))
      = Vec4 0 0 1 1
   \<and> point4 (translate_point (Vec3 0 0 0)
        (rotate_z_point (glm_radians 90)
          (rotate_y_point (glm_radians 0)
            (rotate_x_point (glm_radians 90)
              (scale_point (Vec3 1 1 1) (Vec3 1 0 0))))))
      = Vec4 0 1 0 1
   \<and> Vec4 0 0 1 1 \<noteq> Vec4 0 1 0 1"
proof -
  have a: "mat4_vec4 (mat4_mul (mat4_mul (mat4_mul (mat4_mul
                 (glm_translate (Vec3 0 0 0))
                 (glm_rotate (glm_radians 90) (Vec3 1 0 0)))
                 (glm_rotate (glm_radians 0) (Vec3 0 1 0)))
                 (glm_rotate (glm_radians 90) (Vec3 0 0 1)))
                 (glm_scale (Vec3 1 1 1)))
        (point4 (Vec3 1 0 0))
      = Vec4 0 0 1 1"
    unfolding mat4_vec4_mat4_mul glm_scale_point glm_rotate_z_point glm_rotate_y_point
      glm_rotate_x_point glm_translate_point
    by (simp add: glm_radians_def)
  have b: "point4 (translate_point (Vec3 0 0 0)
        (rotate_z_point (glm_radians 90)
          (rotate_y_point (glm_radians 0)
            (rotate_x_point (glm_radians 90)
              (scale_point (Vec3 1 1 1) (Vec3 1 0 0))))))
      = Vec4 0 1 0 1"
    by (simp add: glm_radians_def)
  have c: "uniform_of (the (m_pShaderManager
        (SetTransformations (Vec3 1 1 1) 90 0 90 (Vec3 0 0 0) (new_SceneManager (Some [])))))
        ''model''
      = Some (UMat4 (mat4_mul (mat4_mul (mat4_mul (mat4_mul
                 (glm_translate (Vec3 0 0 0))
                 (glm_rotate (glm_radians 90) (Vec3 1 0 0)))
                 (glm_rotate (glm_radians 0) (Vec3 0 1 0)))
                 (glm_rotate (glm_radians 90) (Vec3 0 0 1)))
                 (glm_scale (Vec3 1 1 1))))"
    by (simp add: SetTransformations_def Let_def setMat4Value_def g_ModelName_def
        new_SceneManager_def uniform_of_def)
  have d: "Vec4 0 0 1 1 \<noteq> Vec4 0 1 0 1" by simp
  from c a b d show ?thesis by (intro conjI)
qed

subsection \<open>Colour or texture: the last call decides\<close>

text \<open>
  Claim C5. \<open>SetShaderColor\<close> sets the texture-use uniform to false (0) and sets the flat
  colour; \<open>SetShaderTexture\<close> sets it to true (1) and sets the sampler to the slot of the
  tag; and after any sequence of helper calls the flag is the one asked for by the last
  colour or texture call of the sequence, which is what the shader reads at the draw.
\<close>

theorem last_shading_call_sets_flag:
  assumes "m_pShaderManager s = Some sh"
  shows "SetShaderColor r g b a s =
           s\<lparr> m_pShaderManager := Some (sh @ [(''bUseTexture'', UInt 0),
                                               (''objectColor'', UVec4 (Vec4 r g b a))]) \<rparr>
       \<and> use_texture_flag (SetShaderColor r g b a s) = Some (UInt 0)
       \<and> (\<forall>slot. FindTextureSlot s tg = Inr slot \<longrightarrow>
            SetShaderTexture tg s =
              Inr (s\<lparr> m_pShaderManager := Some (sh @ [(''bUseTexture'', UInt 1),
                                                       (''objectTexture'', USampler2D slot)]) \<rparr>)
            \<and> map_sum id use_texture_flag (SetShaderTexture tg s) = Inr (Some (UInt 1)))
       \<and> (registry_ok s \<longrightarrow>
            (\<exists>s'. do_calls cs s = Inr s'
               \<and> use_texture_flag s' = last_request cs (use_texture_flag s)))"
proof (intro conjI allI impI)
  show "SetShaderColor r g b a s =
           s\<lparr> m_pShaderManager := Some (sh @ [(''bUseTexture'', UInt 0),
                                               (''objectColor'', UVec4 (Vec4 r g b a))]) \<rparr>"
    by (rule SetShaderColor_flag [OF assms])
  then show "use_texture_flag (SetShaderColor r g b a s) = Some (UInt 0)"
    by (simp add: use_texture_flag_def uniform_of_def g_UseTextureName_def)
next
  fix slot assume f: "FindTextureSlot s tg = Inr slot"
  show t: "SetShaderTexture tg s =
              Inr (s\<lparr> m_pShaderManager := Some (sh @ [(''bUseTexture'', UInt 1),
                                                       (''objectTexture'', USampler2D slot)]) \<rparr>)"
    by (rule SetShaderTexture_flag [OF assms f])
  show "map_sum id use_texture_flag (SetShaderTexture tg s) = Inr (Some (UInt 1))"
    unfolding t by (simp add: use_texture_flag_def uniform_of_def g_UseTextureName_def)
next
  assume "registry_ok s"
  with assms show "\<exists>s'. do_calls cs s = Inr s'
               \<and> use_texture_flag s' = last_request cs (use_texture_flag s)"
    by (rule do_calls_flag)
qed

theorem last_shading_call_sets_flag_witness:
  "m_pShaderManager ab_sink_scene = Some []
   \<and> FindTextureSlot ab_sink_scene ''b'' = Inr 1
   \<and> use_texture_flag (SetShaderColor 1 0 0 1 ab_sink_scene) = Some (UInt 0)
   \<and> map_sum id use_texture_flag (SetShaderTexture ''b'' ab_sink_scene) = Inr (Some (UInt 1))
   \<and> map_sum id use_texture_flag
        (do_calls [CallSetShaderTexture ''b'', CallSetTextureUVScale 2 2, CallSetShaderColor 1 0 0 1]
           ab_sink_scene) = Inr (Some (UInt 0))
   \<and> map_sum id use_texture_flag
        (do_calls [CallSetShaderColor 1 0 0 1, CallSetShaderTexture ''b'',
                   CallSetTransformations (Vec3 2 1 1) 0 0 90 (Vec3 1 0 0)]
           ab_sink_scene) = Inr (Some (UInt 1))"
proof -
  have h: "m_pShaderManager ab_sink_scene = Some []" by (simp add: ab_sink_scene_def)
  have ok: "registry_ok ab_sink_scene"
    by (simp add: registry_ok_def ab_sink_scene_def ab_scene_def new_SceneManager_def MAX_TEXTURES_def)
  have f: "FindTextureSlot ab_sink_scene ''b'' = Inr 1" by code_simp
  note T = last_shading_call_sets_flag [OF h]
  have c: "use_texture_flag (SetShaderColor 1 0 0 1 ab_sink_scene) = Some (UInt 0)"
    by (rule T [of 1 0 0 1, THEN conjunct2, THEN conjunct1])
  from T [THEN conjunct2, THEN conjunct2, THEN conjunct1, rule_format, OF f]
  have t: "map_sum id use_texture_flag (SetShaderTexture ''b'' ab_sink_scene) = Inr (Some (UInt 1))"
    by (rule conjunct2)
  note D = T [THEN conjunct2, THEN conjunct2, THEN conjunct2, THEN mp, OF ok]
  from D [of "[CallSetShaderTexture ''b'', CallSetTextureUVScale 2 2, CallSetShaderColor 1 0 0 1]"]
  obtain s1 where "do_calls [CallSetShaderTexture ''b'', CallSetTextureUVScale 2 2,
                             CallSetShaderColor 1 0 0 1] ab_sink_scene = Inr s1"
    and "use_texture_flag s1 = Some (UInt 0)"
    by (auto simp del: do_calls.simps)
  then have d1: "map_sum id use_texture_flag
        (do_calls [CallSetShaderTexture ''b'', CallSetTextureUVScale 2 2, CallSetShaderColor 1 0 0 1]
           ab_sink_scene) = Inr (Some (UInt 0))"
    by (simp del: do_calls.simps)
  from D [of "[CallSetShaderColor 1 0 0 1, CallSetShaderTexture ''b'',
               CallSetTransformations (Vec3 2 1 1) 0 0 90 (Vec3 1 0 0)]"]
  obtain s2 where "do_calls [CallSetShaderColor 1 0 0 1, CallSetShaderTexture ''b'',
                   CallSetTransformations (Vec3 2 1 1) 0 0 90 (Vec3 1 0 0)] ab_sink_scene = Inr s2"
    and "use_texture_flag s2 = Some (UInt 1)"
    by (auto simp del: do_calls.simps)
  then have d2: "map_sum id use_texture_flag
        (do_calls [CallSetShaderColor 1 0 0 1, CallSetShaderTexture ''b'',
                   CallSetTransformations (Vec3 2 1 1) 0 0 90 (Vec3 1 0 0)]
           ab_sink_scene) = Inr (Some (UInt 1))"
    by (simp del: do_calls.simps)
  from h f c t d1 d2 show ?thesis by (intro conjI)
qed

subsection \<open>Lookup misses\<close>

text \<open>
  Claim C2, as amended. \<open>FindMaterial\<close> reports not-found, leaving the caller's record
  as it was, when the material registry is empty, and \<open>SetShaderMaterial\<close> then leaves
  the state unchanged. \<open>SetShaderTexture\<close> called with an unregistered tag does change
  the shader state: it sets the texture-use flag to true and the sampler to the sentinel
  -1, and leaves every other uniform as it was.
\<close>

theorem lookup_miss_by_design:
  "(m_objectMaterials s = [] \<longrightarrow>
      FindMaterial s tg material = (False, material) \<and> SetShaderMaterial uninit tg s = Inr s)
   \<and> (m_pShaderManager s = Some sh \<and> registry_ok s \<and> tg \<notin> set (registered_tags s) \<longrightarrow>
        SetShaderTexture tg s =
          Inr (s\<lparr> m_pShaderManager := Some (sh @ [(''bUseTexture'', UInt 1),
                                                   (''objectTexture'', USampler2D (- 1))]) \<rparr>)
        \<and> (\<forall>name. name \<noteq> ''bUseTexture'' \<and> name \<noteq> ''objectTexture'' \<longrightarrow>
              uniform_of (sh @ [(''bUseTexture'', UInt 1), (''objectTexture'', USampler2D (- 1))]) name
                = uniform_of sh name))"
proof (intro conjI impI allI)
  assume "m_objectMaterials s = []"
  then show "FindMaterial s tg material = (False, material)"
    and "SetShaderMaterial uninit tg s = Inr s"
    by (simp_all add: FindMaterial_def SetShaderMaterial_def)
next
  assume a: "m_pShaderManager s = Some sh \<and> registry_ok s \<and> tg \<notin> set (registered_tags s)"
  then have "FindTextureSlot s tg = Inr (- 1)" by (intro FindTextureSlot_miss) simp_all
  with a show "SetShaderTexture tg s =
          Inr (s\<lparr> m_pShaderManager := Some (sh @ [(''bUseTexture'', UInt 1),
                                                   (''objectTexture'', USampler2D (- 1))]) \<rparr>)"
    by (intro SetShaderTexture_flag) simp_all
next
  fix name :: string
  assume "name \<noteq> ''bUseTexture'' \<and> name \<noteq> ''objectTexture''"
  then show "uniform_of (sh @ [(''bUseTexture'', UInt 1), (''objectTexture'', USampler2D (- 1))]) name
                = uniform_of sh name"
    by (simp add: uniform_of_def)
qed

theorem lookup_miss_by_design_witness:
  "m_objectMaterials (new_SceneManager (Some [])) = []
   \<and> FindMaterial (new_SceneManager (Some [])) ''glass'' zero_material = (False, zero_material)
   \<and> SetShaderMaterial zero_material ''glass'' (new_SceneManager (Some []))
       = Inr (new_SceneManager (Some []))
   \<and> registered_tags ab_sink_scene = [''a'', ''b'']
   \<and> SetShaderTexture ''c'' ab_sink_scene =
        Inr (ab_sink_scene\<lparr> m_pShaderManager :=
               Some [(''bUseTexture'', UInt 1), (''objectTexture'', USampler2D (- 1))] \<rparr>)"
proof -
  have e: "m_objectMaterials (new_SceneManager (Some [])) = []" by simp
  have t: "registered_tags ab_sink_scene = [''a'', ''b'']"
    by (simp add: registered_tags_def registered_def ab_sink_scene_def ab_scene_def
        new_SceneManager_def MAX_TEXTURES_def eval_nat_numeral)
  have h: "m_pShaderManager ab_sink_scene = Some [] \<and> registry_ok ab_sink_scene
           \<and> ''c'' \<notin> set (registered_tags ab_sink_scene)"
    unfolding t
    by (simp add: registry_ok_def ab_sink_scene_def ab_scene_def new_SceneManager_def MAX_TEXTURES_def)
  from lookup_miss_by_design
         [where s = "new_SceneManager (Some [])" and tg = "''glass''" and material = zero_material
            and uninit = zero_material, THEN conjunct1, rule_format, OF e]
       lookup_miss_by_design
         [where s = ab_sink_scene and tg = "''c''" and sh = "[]", THEN conjunct2,
          THEN mp, OF h, THEN conjunct1]
       e t
  show ?thesis by simp
qed

text \<open>
  Claim C2, as stated, fails. With the registry holding only \<open>metal\<close>, \<open>FindMaterial\<close>
  reports found for the absent tag \<open>glass\<close> and \<open>SetShaderMaterial\<close> pushes the five
  material uniforms from its uninitialised local; with the textures \<open>a\<close> and \<open>b\<close>
  registered, \<open>SetShaderTexture\<close> for the unregistered tag \<open>c\<close> pushes the flag and
  the sampler.
\<close>

theorem lookup_miss_changes_shader_state:
  "map mtag (m_objectMaterials metal_scene) = [''metal'']
   \<and> FindMaterial metal_scene ''glass'' zero_material = (True, zero_material)
   \<and> SetShaderMaterial zero_material ''glass'' metal_scene =
        Inr (metal_scene\<lparr> m_pShaderManager := Some
               [(''material.ambientColor'', UVec3 (Vec3 0 0 0)),
                (''material.ambientStrength'', UFloat 0),
                (''material.diffuseColor'', UVec3 (Vec3 0 0 0)),
                (''material.specularColor'', UVec3 (Vec3 0 0 0)),
                (''material.shininess'', UFloat 0)] \<rparr>)
   \<and> registered_tags ab_sink_scene = [''a'', ''b'']
   \<and> SetShaderTexture ''c'' ab_sink_scene =
        Inr (ab_sink_scene\<lparr> m_pShaderManager :=
               Some [(''bUseTexture'', UInt 1), (''objectTexture'', USampler2D (- 1))] \<rparr>)
   \<and> SetShaderTexture ''c'' ab_sink_scene \<noteq> Inr ab_sink_scene"
proof -
  have m: "FindMaterial metal_scene ''glass'' zero_material = (True, zero_material)"
    by (simp add: FindMaterial_def metal_scene_def zero_material_def
        FindMaterial_loop.simps [of _ _ 0] FindMaterial_loop.simps [of _ _ 1])
  have sm: "SetShaderMaterial zero_material ''glass'' metal_scene =
        Inr (metal_scene\<lparr> m_pShaderManager := Some
               [(''material.ambientColor'', UVec3 (Vec3 0 0 0)),
                (''material.ambientStrength'', UFloat 0),
                (''material.diffuseColor'', UVec3 (Vec3 0 0 0)),
                (''material.specularColor'', UVec3 (Vec3 0 0 0)),
                (''material.shininess'', UFloat 0)] \<rparr>)"
    unfolding SetShaderMaterial_def m
    by (simp add: metal_scene_def zero_material_def setVec3Value_def setFloatValue_def)
  have t: "registered_tags ab_sink_scene = [''a'', ''b'']"
    by (simp add: registered_tags_def registered_def ab_sink_scene_def ab_scene_def
        new_SceneManager_def MAX_TEXTURES_def eval_nat_numeral)
  have ok: "registry_ok ab_sink_scene"
    by (simp add: registry_ok_def ab_sink_scene_def ab_scene_def new_SceneManager_def MAX_TEXTURES_def)
  have "FindTextureSlot ab_sink_scene ''c'' = Inr (- 1)"
    by (rule FindTextureSlot_miss [OF ok]) (simp add: t)
  then have st: "SetShaderTexture ''c'' ab_sink_scene =
        Inr (ab_sink_scene\<lparr> m_pShaderManager :=
               Some [(''bUseTexture'', UInt 1), (''objectTexture'', USampler2D (- 1))] \<rparr>)"
    using SetShaderTexture_flag [of ab_sink_scene "[]" "''c''" "- 1"]
    by (simp add: ab_sink_scene_def)
  have ne: "SetShaderTexture ''c'' ab_sink_scene \<noteq> Inr ab_sink_scene"
    unfolding st by (simp add: ab_sink_scene_def ab_scene_def new_SceneManager_def)
  have mt: "map mtag (m_objectMaterials metal_scene) = [''metal'']"
    by (simp add: metal_scene_def)
  from mt m sm t st ne show ?thesis by (intro conjI)
qed

subsection \<open>The ceramic material\<close>

text \<open>
  Claim C8. In \<open>DefineObjectMaterials\<close> the shininess assignment written in the ceramic
  material's definition targets the glass record: the local \<open>glassMaterial\<close> ends with
  shininess 25, the ceramic entry appended to the registry has the shininess its local
  held before any assignment (it is never assigned), and the registered glass entry,
  copied before that assignment, keeps the shininess 85 of its own definition.
\<close>

theorem ceramic_shininess_never_assigned:
  "map mtag (m_objectMaterials (DefineObjectMaterials uninit s))
     = map mtag (m_objectMaterials s)
       @ [''metal'', ''wood'', ''glass'', ''ceramic'', ''walling'', ''leather'', ''parchment'']
   \<and> mtag (m_objectMaterials (DefineObjectMaterials uninit s) ! (length (m_objectMaterials s) + 3))
       = ''ceramic''
   \<and> shininess (m_objectMaterials (DefineObjectMaterials uninit s) ! (length (m_objectMaterials s) + 3))
       = shininess (uninit ''ceramicMaterial'')
   \<and> mtag (m_objectMaterials (DefineObjectMaterials uninit s) ! (length (m_objectMaterials s) + 2))
       = ''glass''
   \<and> shininess (m_objectMaterials (DefineObjectMaterials uninit s) ! (length (m_objectMaterials s) + 2))
       = 85
   \<and> mtag (fst (DefineObjectMaterials_locals uninit s)) = ''glass''
   \<and> shininess (fst (DefineObjectMaterials_locals uninit s)) = 25"
  by (simp add: DefineObjectMaterials_def DefineObjectMaterials_locals_def push_back_def Let_def
      nth_append)

theorem ceramic_shininess_never_assigned_witness:
  "shininess (m_objectMaterials
      (DefineObjectMaterials (\<lambda>v. zero_material\<lparr> shininess := 777 \<rparr>) (new_SceneManager None)) ! 3) = 777
   \<and> shininess (m_objectMaterials
      (DefineObjectMaterials (\<lambda>v. zero_material\<lparr> shininess := 777 \<rparr>) (new_SceneManager None)) ! 2) = 85"
proof -
  note T = ceramic_shininess_never_assigned
             [of "\<lambda>v. zero_material\<lparr> shininess := 777 \<rparr>" "new_SceneManager None"]
  have n: "length (m_objectMaterials (new_SceneManager None)) = 0" by simp
  from T have "shininess (m_objectMaterials
      (DefineObjectMaterials (\<lambda>v. zero_material\<lparr> shininess := 777 \<rparr>) (new_SceneManager None))
        ! (length (m_objectMaterials (new_SceneManager None)) + 3))
      = shininess ((\<lambda>v. zero_material\<lparr> shininess := 777 \<rparr>) ''ceramicMaterial'')"
    by blast
  then have a: "shininess (m_objectMaterials
      (DefineObjectMaterials (\<lambda>v. zero_material\<lparr> shininess := 777 \<rparr>) (new_SceneManager None)) ! 3) = 777"
    unfolding n by simp
  from T have "shininess (m_objectMaterials
      (DefineObjectMaterials (\<lambda>v. zero_material\<lparr> shininess := 777 \<rparr>) (new_SceneManager None))
        ! (length (m_objectMaterials (new_SceneManager None)) + 2)) = 85"
    by blast
  then have b: "shininess (m_objectMaterials
      (DefineObjectMaterials (\<lambda>v. zero_material\<lparr> shininess := 777 \<rparr>) (new_SceneManager None)) ! 2) = 85"
    unfolding n by (simp add: numeral_2_eq_2)
  from a b show ?thesis ..
qed

end
